theory Spec2Isabelle
  imports Complex_Main
begin

section \<open>Data migration toolkit: validation, batch processing, reconciliation\<close>

text \<open>
  The development embeds the TypeScript of the data-migration design
  (\<^verbatim>\<open>RIBCandyMigrator\<close>, \<^verbatim>\<open>ExcelMigrationEngine\<close>, \<^verbatim>\<open>BatchProcessor\<close>,
  \<^verbatim>\<open>MigrationMonitor\<close>, \<^verbatim>\<open>DataValidationEngine\<close>, \<^verbatim>\<open>DataReconciliationEngine\<close>)
  and the zod schema \<^verbatim>\<open>createCostItemSchema\<close> of the shared package.
  Methods that the classes call but do not define are parameters of the
  embedding; a JavaScript \<^verbatim>\<open>number\<close> that carries a measure is a rational,
  a count is a natural number, an exception is the left summand of a sum.
\<close>

subsection \<open>Issues and quality checks\<close>

datatype severity = Error | Warning

record 'r issue =
  severity :: severity
  message :: string
  issue_record :: 'r

text \<open>An entry of the local array \<^verbatim>\<open>duplicates\<close> of \<^verbatim>\<open>checkForDuplicates\<close>.\<close>

record 'r duplicate =
  dup_record :: 'r
  duplicateKey :: string
  dup_message :: string

text \<open>
  A JavaScript \<^verbatim>\<open>number\<close> is an IEEE 754 double. The values that the statistics
  can take are not negative: \<^verbatim>\<open>NaN\<close>, \<^verbatim>\<open>Infinity\<close>, or a finite double, given by
  the rational it denotes. \<open>binaryExponent x\<close> is the exponent \<open>k\<close> with
  \<open>2 powi k \<le> x < 2 powi (k + 1)\<close>, found from the bit lengths of numerator and
  denominator;
  \<open>toDouble\<close> rounds a rational that is not negative to the nearest double, with
  53 significant bits above the smallest exponent \<open>-1074\<close>, ties to the even
  significand, and to \<^verbatim>\<open>Infinity\<close> when the rounded value reaches \<open>2 powi 1024\<close>.
\<close>

datatype js_number = NaN | PosInfinity | Finite rat

function bitLength :: "int \<Rightarrow> int" where
  "bitLength n = (if n \<le> 0 then 0 else 1 + bitLength (n div 2))"
  by pat_completeness auto
termination
  by (relation "measure nat") auto

declare bitLength.simps [simp del]

definition binaryExponent :: "rat \<Rightarrow> int" where
  "binaryExponent x =
     (let (p, q) = quotient_of x;
          k = bitLength p - bitLength q
      in if 2 powi k \<le> x then k else k - 1)"

definition roundHalfEven :: "rat \<Rightarrow> int" where
  "roundHalfEven x =
     (let f = \<lfloor>x\<rfloor>; d = x - of_int f
      in if d < 1 / 2 then f
         else if 1 / 2 < d then f + 1
         else if even f then f else f + 1)"

definition toDouble :: "rat \<Rightarrow> js_number" where
  "toDouble x =
     (if x = 0 then Finite 0
      else (let e = max (binaryExponent x - 52) (- 1074);
                r = of_int (roundHalfEven (x / 2 powi e)) * 2 powi e
            in if 1024 \<le> binaryExponent r then PosInfinity else Finite r))"

text \<open>
  The quotient of two array lengths and the product of a number with a count,
  as \<^verbatim>\<open>/\<close> and \<^verbatim>\<open>*\<close> compute them: the exact result, rounded once.
\<close>

definition jsDivide :: "nat \<Rightarrow> nat \<Rightarrow> js_number" where
  "jsDivide a b =
     (if b = 0 then (if a = 0 then NaN else PosInfinity)
      else toDouble (of_nat a / of_nat b))"

definition jsMultiply :: "js_number \<Rightarrow> nat \<Rightarrow> js_number" where
  "jsMultiply x k =
     (case x of
        NaN \<Rightarrow> NaN
      | PosInfinity \<Rightarrow> (if k = 0 then NaN else PosInfinity)
      | Finite v \<Rightarrow> toDouble (v * of_nat k))"

text \<open>
  The statistics of the duplicate check. \<^verbatim>\<open>duplicatePercentage\<close> is
  \<^verbatim>\<open>(duplicates.length / data.records.length) * 100\<close>, a double; on an empty
  list the quotient is \<^verbatim>\<open>0 / 0\<close>, that is \<^verbatim>\<open>NaN\<close>.
\<close>

record dup_statistics =
  totalRecords :: nat
  duplicateCount :: nat
  duplicatePercentage :: js_number

text \<open>
  A \<^verbatim>\<open>QualityCheck\<close>. The statistics of the duplicate check are spelled out;
  those of the other four checks, whose code is not part of the engine shown,
  have the abstract type \<open>'s\<close>.
\<close>

datatype 's check_statistics = DuplicateStatistics dup_statistics | CheckStatistics 's

record ('r, 's) quality_check =
  checkType :: string
  qc_warnings :: "'r issue list"
  qc_statistics :: "'s check_statistics"

text \<open>The argument \<^verbatim>\<open>data\<close> of the validation engine: it is read through \<^verbatim>\<open>data.records\<close>.\<close>

record 'r dataset =
  records :: "'r list"

text \<open>
  The \<^verbatim>\<open>for\<close> loop of \<^verbatim>\<open>checkForDuplicates\<close>: \<open>seen\<close> is the \<^verbatim>\<open>Set\<close>, \<open>dups\<close> the
  array \<^verbatim>\<open>duplicates\<close>, and \<open>key\<close> stands for \<^verbatim>\<open>generateRecordKey\<close>.
\<close>

fun dup_loop :: "('r \<Rightarrow> string) \<Rightarrow> 'r list \<Rightarrow> string set \<Rightarrow> 'r duplicate list
    \<Rightarrow> 'r duplicate list" where
  "dup_loop key [] seen dups = dups"
| "dup_loop key (r # rs) seen dups =
     (let k = key r;
          dups' = (if k \<in> seen
                   then dups @ [\<lparr>dup_record = r, duplicateKey = k,
                                 dup_message = ''Duplicate record found: '' @ k\<rparr>]
                   else dups)
      in dup_loop key rs (insert k seen) dups')"

definition checkForDuplicates ::
    "('r \<Rightarrow> string) \<Rightarrow> 'r dataset \<Rightarrow> ('r, 's) quality_check" where
  "checkForDuplicates key data =
     (let duplicates = dup_loop key (records data) {} []
      in \<lparr>checkType = ''duplicates'',
          qc_warnings = map (\<lambda>d. \<lparr>severity = Warning, message = dup_message d,
                                issue_record = dup_record d\<rparr>) duplicates,
          qc_statistics = DuplicateStatistics
            \<lparr>totalRecords = length (records data),
             duplicateCount = length duplicates,
             duplicatePercentage =
               jsMultiply (jsDivide (length duplicates) (length (records data))) 100\<rparr>\<rparr>)"

subsection \<open>Exceptions\<close>

text \<open>
  A thrown value is an \<^verbatim>\<open>Error\<close> with its \<^verbatim>\<open>message\<close>; \<^verbatim>\<open>MigrationError\<close> also
  carries the list of validation errors it was built from. An \<^verbatim>\<open>async\<close> method
  that may reject returns a sum, the exception on the left.
\<close>

datatype 'r exn = JSError string | MigrationError string "'r issue list"

fun exn_message :: "'r exn \<Rightarrow> string" where
  "exn_message (JSError m) = m"
| "exn_message (MigrationError m errs) = m"

text \<open>
  \<^verbatim>\<open>Promise.all\<close>: the results in the order of the array when every promise
  fulfils; otherwise it rejects with the reason of the promise that rejects
  first in time. Time is not part of the model: \<open>firstRejected\<close> stands for the
  scheduler and picks, among the reasons of the rejected promises, the one that
  surfaces (the first in the array if it does not pick one of them).
\<close>

fun rejections :: "('e + 'a) list \<Rightarrow> 'e list" where
  "rejections [] = []"
| "rejections (Inl e # ps) = e # rejections ps"
| "rejections (Inr x # ps) = rejections ps"

fun fulfilments :: "('e + 'a) list \<Rightarrow> 'a list" where
  "fulfilments [] = []"
| "fulfilments (Inl e # ps) = fulfilments ps"
| "fulfilments (Inr x # ps) = x # fulfilments ps"

definition promise_all :: "('e list \<Rightarrow> 'e) \<Rightarrow> ('e + 'a) list \<Rightarrow> 'e + 'a list" where
  "promise_all firstRejected ps =
     (case rejections ps of
        [] \<Rightarrow> Inr (fulfilments ps)
      | e # es \<Rightarrow>
          Inl (if firstRejected (e # es) \<in> set (e # es) then firstRejected (e # es) else e))"

subsection \<open>The validation engine\<close>

text \<open>What a validation layer returns: it is read through \<^verbatim>\<open>errors\<close> and \<^verbatim>\<open>warnings\<close>.\<close>

record 'r layer_result =
  lr_errors :: "'r issue list"
  lr_warnings :: "'r issue list"

text \<open>The \<^verbatim>\<open>QualityCheckResult\<close> of \<^verbatim>\<open>performQualityChecks\<close>.\<close>

record ('r, 'a) quality_check_result =
  qr_warnings :: "'r issue list"
  qr_statistics :: 'a

text \<open>The \<^verbatim>\<open>ValidationResult\<close> that \<^verbatim>\<open>validateMigrationData\<close> builds.\<close>

record ('r, 'a) validation_result =
  isValid :: bool
  errors :: "'r issue list"
  warnings :: "'r issue list"
  statistics :: 'a

text \<open>The \<^verbatim>\<open>ValidationSchema\<close>; the engine itself reads its \<^verbatim>\<open>businessRules\<close>.\<close>

record 'b validation_schema =
  businessRules :: 'b

text \<open>
  The methods of \<^verbatim>\<open>DataValidationEngine\<close> that the class calls and does not
  define. Each asynchronous one may reject. \<open>firstRejected\<close> is no method: it is
  the scheduler of \<^verbatim>\<open>Promise.all\<close>.
\<close>

record ('r, 'b, 's, 'a) validation_engine =
  validateSchema :: "'r dataset \<Rightarrow> 'b validation_schema \<Rightarrow> 'r exn + 'r layer_result"
  validateBusinessRules :: "'r dataset \<Rightarrow> 'b \<Rightarrow> 'r exn + 'r layer_result"
  validateCrossReferences :: "'r dataset \<Rightarrow> 'r exn + 'r layer_result"
  generateRecordKey :: "'r \<Rightarrow> string"
  checkDataCompleteness :: "'r dataset \<Rightarrow> 'r exn + ('r, 's) quality_check"
  checkDataConsistency :: "'r dataset \<Rightarrow> 'r exn + ('r, 's) quality_check"
  checkValueRanges :: "'r dataset \<Rightarrow> 'r exn + ('r, 's) quality_check"
  checkReferentialIntegrity :: "'r dataset \<Rightarrow> 'r exn + ('r, 's) quality_check"
  aggregateStatistics :: "('r, 's) quality_check list \<Rightarrow> 'a"
  firstRejected :: "'r exn list \<Rightarrow> 'r exn"

definition performQualityChecks ::
    "('r, 'b, 's, 'a) validation_engine \<Rightarrow> 'r dataset
      \<Rightarrow> 'r exn + ('r, 'a) quality_check_result" where
  "performQualityChecks eng data =
     (let checks = [Inr (checkForDuplicates (generateRecordKey eng) data),
                    checkDataCompleteness eng data,
                    checkDataConsistency eng data,
                    checkValueRanges eng data,
                    checkReferentialIntegrity eng data]
      in case promise_all (firstRejected eng) checks of
           Inl e \<Rightarrow> Inl e
         | Inr results \<Rightarrow>
             Inr \<lparr>qr_warnings = concat (map qc_warnings results),
                  qr_statistics = aggregateStatistics eng results\<rparr>)"

text \<open>
  \<^verbatim>\<open>validateMigrationData\<close>: the four awaited calls in the order of the source,
  the pushes onto \<^verbatim>\<open>results.errors\<close> and \<^verbatim>\<open>results.warnings\<close> in that order, and the
  final assignment of \<^verbatim>\<open>isValid\<close>.
\<close>

definition validateMigrationData ::
    "('r, 'b, 's, 'a) validation_engine \<Rightarrow> 'r dataset \<Rightarrow> 'b validation_schema
      \<Rightarrow> 'r exn + ('r, 'a) validation_result" where
  "validateMigrationData eng data schema =
     (case validateSchema eng data schema of
        Inl e \<Rightarrow> Inl e
      | Inr schemaResult \<Rightarrow>
     (case validateBusinessRules eng data (businessRules schema) of
        Inl e \<Rightarrow> Inl e
      | Inr businessResult \<Rightarrow>
     (case performQualityChecks eng data of
        Inl e \<Rightarrow> Inl e
      | Inr qualityResult \<Rightarrow>
     (case validateCrossReferences eng data of
        Inl e \<Rightarrow> Inl e
      | Inr crossRefResult \<Rightarrow>
          (let errs = lr_errors schemaResult @ lr_errors businessResult
                        @ lr_errors crossRefResult;
               warns = lr_warnings schemaResult @ lr_warnings businessResult
                        @ qr_warnings qualityResult
           in Inr \<lparr>isValid = (length errs = 0),
                    errors = errs,
                    warnings = warns,
                    statistics = qr_statistics qualityResult\<rparr>)))))"

subsection \<open>The RIB Candy migrator\<close>

text \<open>
  What a \<^verbatim>\<open>catch\<close> clause can receive. JavaScript throws any value: an \<^verbatim>\<open>Error\<close>,
  whose \<^verbatim>\<open>message\<close> can be read; \<^verbatim>\<open>null\<close> or \<^verbatim>\<open>undefined\<close>, on which reading
  \<^verbatim>\<open>message\<close> throws a \<^verbatim>\<open>TypeError\<close>; or another value, whose \<^verbatim>\<open>message\<close> is
  \<^verbatim>\<open>undefined\<close>.
\<close>

datatype 'r thrown = Thrown "'r exn" | ThrownNullish | ThrownOther

fun thrown_message :: "'r thrown \<Rightarrow> 'r thrown + string option" where
  "thrown_message (Thrown e) = Inr (Some (exn_message e))"
| "thrown_message ThrownNullish =
     Inl (Thrown (JSError ''TypeError: Cannot read properties of null (reading message)''))"
| "thrown_message ThrownOther = Inr None"

text \<open>
  The \<^verbatim>\<open>MigrationResult\<close> of \<^verbatim>\<open>migrateBOQData\<close> has one of two shapes, told apart
  by its \<^verbatim>\<open>status\<close>: \<^verbatim>\<open>recordsMigrated\<close>, \<^verbatim>\<open>validationErrors\<close> and \<^verbatim>\<open>migrationLog\<close>
  on success, \<^verbatim>\<open>error\<close> (\<open>None\<close> when it is \<^verbatim>\<open>undefined\<close>) and \<^verbatim>\<open>migrationLog\<close> on
  failure.
\<close>

datatype ('r, 'l) migration_result =
    MigrationSuccess nat "'r issue list" 'l
  | MigrationFailure "string option" 'l


record boq_import_result =
  itemCount :: nat

text \<open>
  The methods that \<^verbatim>\<open>migrateBOQData\<close> calls on \<^verbatim>\<open>this\<close>; each returns or throws.
  The first two are the queries against the source database and the mapping
  of its rows; here only their outcome matters. \<^verbatim>\<open>importBOQ\<close> is the one method
  that writes the destination store \<open>'db\<close>: it returns the store it leaves behind,
  also when it throws. \<^verbatim>\<open>generateMigrationLog\<close> is synchronous and takes no
  argument; it returns the log or throws, the same at each of its calls in
  one run.
\<close>

record ('src, 'boq, 'r, 'a, 'l, 'db) rib_migrator =
  extractBOQFromRIBCandy :: "string \<Rightarrow> 'r thrown + 'src"
  transformBOQStructure :: "'src \<Rightarrow> 'r thrown + 'boq"
  validateBOQData :: "'boq \<Rightarrow> 'r thrown + ('r, 'a) validation_result"
  importBOQ :: "'boq \<Rightarrow> 'db \<Rightarrow> ('r thrown + boq_import_result) \<times> 'db"
  generateMigrationLog :: "'r thrown + 'l"

text \<open>
  The body of the \<^verbatim>\<open>try\<close> block of \<^verbatim>\<open>migrateBOQData\<close>. The object it returns is
  built after the import, and its last property calls \<^verbatim>\<open>generateMigrationLog\<close>.
\<close>

definition migrateBOQData_try ::
    "('src, 'boq, 'r, 'a, 'l, 'db) rib_migrator \<Rightarrow> string \<Rightarrow> 'db
      \<Rightarrow> ('r thrown + ('r, 'l) migration_result) \<times> 'db" where
  "migrateBOQData_try m projectId db =
     (case extractBOQFromRIBCandy m projectId of
        Inl e \<Rightarrow> (Inl e, db)
      | Inr sourceBoq \<Rightarrow>
     (case transformBOQStructure m sourceBoq of
        Inl e \<Rightarrow> (Inl e, db)
      | Inr transformedBoq \<Rightarrow>
     (case validateBOQData m transformedBoq of
        Inl e \<Rightarrow> (Inl e, db)
      | Inr validationResult \<Rightarrow>
          if \<not> isValid validationResult
          then (Inl (Thrown (MigrationError ''BOQ validation failed''
                               (errors validationResult))), db)
          else (case importBOQ m transformedBoq db of
                  (Inl e, db') \<Rightarrow> (Inl e, db')
                | (Inr importResult, db') \<Rightarrow>
                    (case generateMigrationLog m of
                       Inl e \<Rightarrow> (Inl e, db')
                     | Inr migrationLog \<Rightarrow>
                         (Inr (MigrationSuccess (itemCount importResult)
                                 (warnings validationResult) migrationLog), db'))))))"

text \<open>
  \<^verbatim>\<open>migrateBOQData\<close>: the \<^verbatim>\<open>try\<close> block and its \<^verbatim>\<open>catch\<close>. The \<^verbatim>\<open>catch\<close> builds its
  object from \<^verbatim>\<open>error.message\<close> and then from \<^verbatim>\<open>generateMigrationLog()\<close>; what
  either of them throws leaves the method.
\<close>

definition migrateBOQData ::
    "('src, 'boq, 'r, 'a, 'l, 'db) rib_migrator \<Rightarrow> string \<Rightarrow> 'db
      \<Rightarrow> ('r thrown + ('r, 'l) migration_result) \<times> 'db" where
  "migrateBOQData m projectId db =
     (case migrateBOQData_try m projectId db of
        (Inr result, db') \<Rightarrow> (Inr result, db')
      | (Inl error, db') \<Rightarrow>
          (case thrown_message error of
             Inl typeError \<Rightarrow> (Inl typeError, db')
           | Inr msg \<Rightarrow>
               (case generateMigrationLog m of
                  Inl e \<Rightarrow> (Inl e, db')
                | Inr migrationLog \<Rightarrow> (Inr (MigrationFailure msg migrationLog), db'))))"

subsection \<open>The Excel migration engine\<close>

record template_field =
  tf_name :: string
  aliases :: "string list"
  required :: bool
  dataType :: "string option"

record template_rule =
  rule_field :: string
  rule_name :: string

record excel_template =
  tmpl_name :: string
  description :: string
  tmpl_fields :: "template_field list"
  validationRules :: "template_rule list"

definition boqTemplate :: excel_template where
  "boqTemplate =
     \<lparr>tmpl_name = ''Standard BOQ Template'',
      description = ''Standard Bill of Quantities format'',
      tmpl_fields =
        [\<lparr>tf_name = ''item_code'', aliases = [''code'', ''item no'', ''item number''],
           required = True, dataType = None\<rparr>,
         \<lparr>tf_name = ''description'', aliases = [''desc'', ''item description''],
           required = True, dataType = None\<rparr>,
         \<lparr>tf_name = ''unit'', aliases = [''uom'', ''unit of measure''],
           required = True, dataType = None\<rparr>,
         \<lparr>tf_name = ''quantity'', aliases = [''qty'', ''amount''],
           required = True, dataType = Some ''number''\<rparr>,
         \<lparr>tf_name = ''rate'', aliases = [''unit rate'', ''price''],
           required = True, dataType = Some ''currency''\<rparr>,
         \<lparr>tf_name = ''amount'', aliases = [''total'', ''total amount''],
           required = False, dataType = Some ''currency''\<rparr>],
      validationRules =
        [\<lparr>rule_field = ''quantity'', rule_name = ''positive_number''\<rparr>,
         \<lparr>rule_field = ''rate'', rule_name = ''positive_currency''\<rparr>,
         \<lparr>rule_field = ''item_code'', rule_name = ''unique_within_sheet''\<rparr>]\<rparr>"

text \<open>What \<^verbatim>\<open>findBestMatch\<close> resolves to when it finds a field: its name and a confidence.\<close>

record field_match =
  fm_name :: string
  fm_confidence :: rat

record 'c worksheet =
  ws_name :: string
  cells :: 'c

record 'c workbook =
  worksheets :: "'c worksheet list"

record header_row =
  hr_values :: "string list"
  hr_number :: nat

record data_range =
  startRow :: int
  endRow :: int

record 'dt column_mapping =
  excelColumn :: nat
  excelHeader :: string
  templateField :: "string option"
  confidence :: rat
  cm_dataType :: 'dt

record 'dt sheet_mapping =
  sheetName :: string
  headerRow :: nat
  dataRange :: data_range
  columnMappings :: "'dt column_mapping list"
  recordCount :: int

record 'dt data_mapping =
  sheets :: "'dt sheet_mapping list"
  dm_confidence :: rat

record import_result =
  ir_count :: nat

datatype ('r, 'sg, 'sm) excel_result =
    ExcelFailure "'r issue list" 'sg
  | ExcelSuccess nat "'r issue list" 'sm

fun excel_status :: "('r, 'sg, 'sm) excel_result \<Rightarrow> string" where
  "excel_status (ExcelFailure es sg) = ''error''"
| "excel_status (ExcelSuccess n ws sm) = ''success''"

text \<open>
  The methods that \<^verbatim>\<open>ExcelMigrationEngine\<close> calls and does not define (and
  \<^verbatim>\<open>inferDataType\<close>, whose result is only stored). \<^verbatim>\<open>importData\<close> is the one that
  writes the destination store.
\<close>

record ('c, 'dt, 'd, 'r, 'a, 'sg, 'sm, 'db) excel_engine =
  loadExcelFile :: "string \<Rightarrow> 'r exn + 'c workbook"
  getTemplate :: "string \<Rightarrow> 'r exn + excel_template"
  findHeaderRow :: "'c worksheet \<Rightarrow> header_row"
  identifyDataRange :: "'c worksheet \<Rightarrow> header_row \<Rightarrow> data_range"
  findBestMatch :: "string \<Rightarrow> template_field list \<Rightarrow> field_match option"
  inferDataType :: "'c worksheet \<Rightarrow> nat \<Rightarrow> data_range \<Rightarrow> 'dt"
  calculateMappingConfidence :: "'dt sheet_mapping list \<Rightarrow> rat"
  extractDataFromExcel :: "'c workbook \<Rightarrow> 'dt data_mapping \<Rightarrow> 'r exn + 'd"
  validateExtractedData :: "'d \<Rightarrow> excel_template \<Rightarrow> 'r exn + ('r, 'a) validation_result"
  generateMappingSuggestions :: "'c workbook \<Rightarrow> excel_template \<Rightarrow> 'sg"
  importData :: "'d \<Rightarrow> string \<Rightarrow> 'db \<Rightarrow> ('r exn + import_result) \<times> 'db"
  generateImportSummary :: "import_result \<Rightarrow> 'sm"

text \<open>
  \<^verbatim>\<open>analyzeSheet\<close>: one column mapping for each header, in the order of the header
  row; \<^verbatim>\<open>templateField?.confidence || 0\<close> is 0 when there is no match.
\<close>

definition analyzeSheet ::
    "('c, 'dt, 'd, 'r, 'a, 'sg, 'sm, 'db) excel_engine \<Rightarrow> 'c worksheet \<Rightarrow> excel_template
      \<Rightarrow> 'dt sheet_mapping" where
  "analyzeSheet eng sheet template =
     (let hrow = findHeaderRow eng sheet;
          range = identifyDataRange eng sheet hrow;
          mappings =
            map (\<lambda>(index, header).
                   (let match = findBestMatch eng header (tmpl_fields template)
                    in \<lparr>excelColumn = index,
                        excelHeader = header,
                        templateField = map_option fm_name match,
                        confidence = (case match of None \<Rightarrow> 0 | Some m \<Rightarrow> fm_confidence m),
                        cm_dataType = inferDataType eng sheet index range\<rparr>))
                (enumerate 0 (hr_values hrow))
      in \<lparr>sheetName = ws_name sheet,
          headerRow = hr_number hrow,
          dataRange = range,
          columnMappings = mappings,
          recordCount = endRow range - startRow range + 1\<rparr>)"

definition detectDataStructure ::
    "('c, 'dt, 'd, 'r, 'a, 'sg, 'sm, 'db) excel_engine \<Rightarrow> 'c workbook \<Rightarrow> excel_template
      \<Rightarrow> 'dt data_mapping" where
  "detectDataStructure eng wb template =
     (let sheetMappings = map (\<lambda>sheet. analyzeSheet eng sheet template) (worksheets wb)
      in \<lparr>sheets = sheetMappings,
          dm_confidence = calculateMappingConfidence eng sheetMappings\<rparr>)"

text \<open>
  \<^verbatim>\<open>migrateExcelWorkbook\<close>. A rejected \<^verbatim>\<open>await\<close> rejects the whole call; a result
  that is not valid returns before \<^verbatim>\<open>importData\<close> is reached.
\<close>

definition migrateExcelWorkbook ::
    "('c, 'dt, 'd, 'r, 'a, 'sg, 'sm, 'db) excel_engine \<Rightarrow> string \<Rightarrow> string \<Rightarrow> 'db
      \<Rightarrow> ('r exn + ('r, 'sg, 'sm) excel_result) \<times> 'db" where
  "migrateExcelWorkbook eng filePath templateType db =
     (case loadExcelFile eng filePath of
        Inl e \<Rightarrow> (Inl e, db)
      | Inr wb \<Rightarrow>
     (case getTemplate eng templateType of
        Inl e \<Rightarrow> (Inl e, db)
      | Inr template \<Rightarrow>
     (let dataMapping = detectDataStructure eng wb template
      in case extractDataFromExcel eng wb dataMapping of
        Inl e \<Rightarrow> (Inl e, db)
      | Inr extractedData \<Rightarrow>
     (case validateExtractedData eng extractedData template of
        Inl e \<Rightarrow> (Inl e, db)
      | Inr validatedData \<Rightarrow>
          if \<not> isValid validatedData
          then (Inr (ExcelFailure (errors validatedData)
                       (generateMappingSuggestions eng wb template)), db)
          else (case importData eng extractedData templateType db of
                  (Inl e, db') \<Rightarrow> (Inl e, db')
                | (Inr importResult, db') \<Rightarrow>
                    (Inr (ExcelSuccess (ir_count importResult) (warnings validatedData)
                            (generateImportSummary eng importResult)), db'))))))"

subsection \<open>The cost item schema\<close>

text \<open>
  \<^verbatim>\<open>createCostItemSchema\<close> of the shared package, a zod object schema. The input
  is taken with the field types of the schema; a \<^verbatim>\<open>number\<close> is a rational. An
  issue names the field and carries the message given in the schema, or \<open>None\<close>
  where the schema gives none and the library supplies its own. The test for a
  cuid is the library's and is a parameter.
\<close>

record cost_item =
  ci_name :: string
  ci_description :: "string option"
  ci_code :: "string option"
  ci_type :: string
  quantity :: rat
  ci_unit :: string
  unitCost :: rat
  categoryId :: string
  phaseId :: "string option"
  ci_notes :: "string option"

record zod_issue =
  zi_path :: string
  zi_message :: "string option"

definition zod_min1 :: "string \<Rightarrow> string \<Rightarrow> string \<Rightarrow> zod_issue list" where
  "zod_min1 path msg s =
     (if length s < 1 then [\<lparr>zi_path = path, zi_message = Some msg\<rparr>] else [])"

definition zod_positive :: "string \<Rightarrow> string \<Rightarrow> rat \<Rightarrow> zod_issue list" where
  "zod_positive path msg x =
     (if x > 0 then [] else [\<lparr>zi_path = path, zi_message = Some msg\<rparr>])"

definition zod_enum :: "string \<Rightarrow> string list \<Rightarrow> string \<Rightarrow> zod_issue list" where
  "zod_enum path allowed s =
     (if s \<in> set allowed then [] else [\<lparr>zi_path = path, zi_message = None\<rparr>])"

definition zod_cuid :: "(string \<Rightarrow> bool) \<Rightarrow> string \<Rightarrow> string \<Rightarrow> string \<Rightarrow> zod_issue list" where
  "zod_cuid isCuid path msg s =
     (if isCuid s then [] else [\<lparr>zi_path = path, zi_message = Some msg\<rparr>])"

definition createCostItemSchema_issues :: "(string \<Rightarrow> bool) \<Rightarrow> cost_item \<Rightarrow> zod_issue list" where
  "createCostItemSchema_issues isCuid item =
       zod_min1 ''name'' ''Cost item name is required'' (ci_name item)
     @ zod_enum ''type'' [''MATERIAL'', ''LABOR'', ''EQUIPMENT'', ''SUBCONTRACTOR'', ''OTHER'']
         (ci_type item)
     @ zod_positive ''quantity'' ''Quantity must be positive'' (quantity item)
     @ zod_min1 ''unit'' ''Unit is required'' (ci_unit item)
     @ zod_positive ''unitCost'' ''Unit cost must be positive'' (unitCost item)
     @ zod_cuid isCuid ''categoryId'' ''Invalid category ID'' (categoryId item)
     @ (case phaseId item of
          None \<Rightarrow> []
        | Some p \<Rightarrow> zod_cuid isCuid ''phaseId'' ''Invalid phase ID'' p)"

text \<open>Parsing with the schema: the item, or the issues of the \<^verbatim>\<open>ZodError\<close>.\<close>

definition createCostItemSchema :: "(string \<Rightarrow> bool) \<Rightarrow> cost_item \<Rightarrow> zod_issue list + cost_item" where
  "createCostItemSchema isCuid item =
     (let issues = createCostItemSchema_issues isCuid item
      in if issues = [] then Inr item else Inl issues)"

subsection \<open>Matching headers to template fields\<close>

text \<open>
  Modelled from the spec: \<^verbatim>\<open>findBestMatch\<close>, which \<^verbatim>\<open>analyzeSheet\<close> calls for every
  header, is not part of the source, and neither is the similarity it scores
  with. A header and an alias are compared after normalisation (surrounding
  blanks removed, letters in lower case): equal strings are an exact alias
  match, of confidence 1; otherwise the confidence is the similarity of the two
  normalised strings, a parameter. Among the aliases of all fields the best
  score wins, the first in declared order on a tie, and it is accepted only
  above the minimum confidence, 0.6 unless configured.
\<close>

definition toLower :: "char \<Rightarrow> char" where
  "toLower c =
     (case map_of (zip ''ABCDEFGHIJKLMNOPQRSTUVWXYZ'' ''abcdefghijklmnopqrstuvwxyz'') c of
        None \<Rightarrow> c
      | Some l \<Rightarrow> l)"

definition normalizeHeader :: "string \<Rightarrow> string" where
  "normalizeHeader s =
     map toLower (rev (dropWhile (\<lambda>c. c = CHR '' '') (rev (dropWhile (\<lambda>c. c = CHR '' '') s))))"

definition defaultMinConfidence :: rat where
  "defaultMinConfidence = 6 / 10"

definition matchConfidence :: "(string \<Rightarrow> string \<Rightarrow> rat) \<Rightarrow> string \<Rightarrow> string \<Rightarrow> rat" where
  "matchConfidence similarity header alias =
     (let h = normalizeHeader header; a = normalizeHeader alias
      in if h = a then 1 else similarity h a)"

definition matchCandidates ::
    "(string \<Rightarrow> string \<Rightarrow> rat) \<Rightarrow> string \<Rightarrow> template_field list \<Rightarrow> field_match list" where
  "matchCandidates similarity header tfields =
     concat (map (\<lambda>f. map (\<lambda>a. \<lparr>fm_name = tf_name f,
                                  fm_confidence = matchConfidence similarity header a\<rparr>)
                       (aliases f)) tfields)"

fun bestCandidate :: "field_match list \<Rightarrow> field_match option" where
  "bestCandidate [] = None"
| "bestCandidate (c # cs) =
     (case bestCandidate cs of
        None \<Rightarrow> Some c
      | Some b \<Rightarrow> if fm_confidence c < fm_confidence b then Some b else Some c)"

definition findBestMatch_spec ::
    "(string \<Rightarrow> string \<Rightarrow> rat) \<Rightarrow> rat \<Rightarrow> string \<Rightarrow> template_field list \<Rightarrow> field_match option" where
  "findBestMatch_spec similarity minConfidence header tfields =
     (case bestCandidate (matchCandidates similarity header tfields) of
        None \<Rightarrow> None
      | Some b \<Rightarrow> if minConfidence < fm_confidence b then Some b else None)"

subsection \<open>The batch processor\<close>







record 'e job_progress =
  processed :: nat
  total :: "nat option"
  progress_errors :: "'e list"








subsection \<open>The migration monitor\<close>

text \<open>
  The phases that \<^verbatim>\<open>createProgressTracker\<close> hands to the \<^verbatim>\<open>ProgressTracker\<close>, in the
  order of the array.
\<close>

definition phases :: "string list" where
  "phases = [''discovery'', ''extraction'', ''transformation'', ''validation'', ''import'',
             ''verification'']"

text \<open>
  Modelled from the spec: the class \<^verbatim>\<open>ProgressTracker\<close>, which drives a job through
  its phases, is not part of the source. The states are the six phases,
  \<open>Completed\<close>, and the terminal states \<open>Failed\<close> and \<open>Canceled\<close>; a job moves from a
  phase to the next one, from the last phase to \<open>Completed\<close>, and from any state
  that is not terminal to \<open>Failed\<close> (unrecoverable error) or \<open>Canceled\<close> (operator
  cancellation).
\<close>

datatype job_state =
  Discovery | Extraction | Transformation | Validation | Import | Verification
  | Completed | Failed | Canceled

fun phase_name :: "job_state \<Rightarrow> string" where
  "phase_name Discovery = ''discovery''"
| "phase_name Extraction = ''extraction''"
| "phase_name Transformation = ''transformation''"
| "phase_name Validation = ''validation''"
| "phase_name Import = ''import''"
| "phase_name Verification = ''verification''"
| "phase_name Completed = ''completed''"
| "phase_name Failed = ''failed''"
| "phase_name Canceled = ''canceled''"

fun next_phase :: "job_state \<Rightarrow> job_state option" where
  "next_phase Discovery = Some Extraction"
| "next_phase Extraction = Some Transformation"
| "next_phase Transformation = Some Validation"
| "next_phase Validation = Some Import"
| "next_phase Import = Some Verification"
| "next_phase Verification = Some Completed"
| "next_phase Completed = None"
| "next_phase Failed = None"
| "next_phase Canceled = None"

fun terminal :: "job_state \<Rightarrow> bool" where
  "terminal Completed = True"
| "terminal Failed = True"
| "terminal Canceled = True"
| "terminal s = False"

definition transition :: "job_state \<Rightarrow> job_state \<Rightarrow> bool" where
  "transition s t \<longleftrightarrow>
     next_phase s = Some t \<or> (\<not> terminal s \<and> (t = Failed \<or> t = Canceled))"

text \<open>The history of a job: each state follows from the one before by a transition.\<close>

fun job_history :: "job_state list \<Rightarrow> bool" where
  "job_history [] = False"
| "job_history [s] = True"
| "job_history (s # t # rest) = (transition s t \<and> job_history (t # rest))"

definition phase_sequence :: "job_state list" where
  "phase_sequence =
     [Discovery, Extraction, Transformation, Validation, Import, Verification, Completed]"

fun rank :: "job_state \<Rightarrow> nat" where
  "rank Discovery = 0"
| "rank Extraction = 1"
| "rank Transformation = 2"
| "rank Validation = 3"
| "rank Import = 4"
| "rank Verification = 5"
| "rank Completed = 6"
| "rank Failed = 7"
| "rank Canceled = 7"

subsection \<open>The reconciliation engine\<close>

text \<open>
  What \<^verbatim>\<open>extractSourceData\<close> and \<^verbatim>\<open>extractTargetData\<close> return: the engine reads
  \<^verbatim>\<open>recordCount\<close> and hands the whole to the methods that compute totals.
\<close>

record 'c migrated_data =
  recordCount :: nat
  md_content :: 'c

text \<open>What \<^verbatim>\<open>performReconciliation\<close> returns.\<close>

record ('m, 'dc) reconciliation =
  matches :: "'m list"
  unmatchedSource :: "'m list"
  unmatchedTarget :: "'m list"
  discrepancies :: 'dc

record ('f, 'v) financial_totals =
  ft_source :: 'f
  ft_target :: 'f
  variance :: 'v

text \<open>The \<^verbatim>\<open>ReconciliationReport\<close> that \<^verbatim>\<open>reconcileMigratedData\<close> builds.\<close>

record ('dc, 'f, 'v, 'a) reconciliation_report =
  sourceRecordCount :: nat
  targetRecordCount :: nat
  matchedRecords :: nat
  rr_unmatchedSource :: nat
  rr_unmatchedTarget :: nat
  rr_discrepancies :: 'dc
  financialTotals :: "('f, 'v) financial_totals"
  recommendedActions :: 'a

text \<open>The methods of \<^verbatim>\<open>DataReconciliationEngine\<close> that the class calls and does not define.\<close>

record ('c, 'm, 'dc, 'f, 'v, 'a) reconciliation_engine =
  extractSourceData :: "string \<Rightarrow> 'm exn + 'c migrated_data"
  extractTargetData :: "string \<Rightarrow> 'm exn + 'c migrated_data"
  performReconciliation ::
    "'c migrated_data \<Rightarrow> 'c migrated_data \<Rightarrow> 'm exn + ('m, 'dc) reconciliation"
  calculateFinancialTotals :: "'c migrated_data \<Rightarrow> 'f"
  calculateVariance :: "'c migrated_data \<Rightarrow> 'c migrated_data \<Rightarrow> 'v"
  generateRecommendations :: "('m, 'dc) reconciliation \<Rightarrow> 'a"

definition reconcileMigratedData ::
    "('c, 'm, 'dc, 'f, 'v, 'a) reconciliation_engine \<Rightarrow> string \<Rightarrow> string
      \<Rightarrow> 'm exn + ('dc, 'f, 'v, 'a) reconciliation_report" where
  "reconcileMigratedData eng sourceId targetId =
     (case extractSourceData eng sourceId of
        Inl e \<Rightarrow> Inl e
      | Inr sourceData \<Rightarrow>
     (case extractTargetData eng targetId of
        Inl e \<Rightarrow> Inl e
      | Inr targetData \<Rightarrow>
     (case performReconciliation eng sourceData targetData of
        Inl e \<Rightarrow> Inl e
      | Inr rc \<Rightarrow>
          Inr \<lparr>sourceRecordCount = recordCount sourceData,
               targetRecordCount = recordCount targetData,
               matchedRecords = length (matches rc),
               rr_unmatchedSource = length (unmatchedSource rc),
               rr_unmatchedTarget = length (unmatchedTarget rc),
               rr_discrepancies = discrepancies rc,
               financialTotals =
                 \<lparr>ft_source = calculateFinancialTotals eng sourceData,
                  ft_target = calculateFinancialTotals eng targetData,
                  variance = calculateVariance eng sourceData targetData\<rparr>,
               recommendedActions = generateRecommendations eng rc\<rparr>)))"

subsection \<open>Sample instances\<close>

text \<open>
  A small instance of the engines for evaluating them: a row is an item code
  and a quantity; schema validation applies the rule \<^verbatim>\<open>positive_number\<close> of the BOQ
  template to the quantity, the business rule asks for a quantity of at least
  one unit, the record key is the item code, and the destination store is the
  list of imported rows.
\<close>

type_synonym boq_row = "string \<times> rat"

definition schemaIssue :: "boq_row \<Rightarrow> boq_row issue" where
  "schemaIssue r = \<lparr>severity = Error, message = ''quantity: positive_number'', issue_record = r\<rparr>"

definition businessIssue :: "boq_row \<Rightarrow> boq_row issue" where
  "businessIssue r = \<lparr>severity = Error, message = ''quantity below one unit'', issue_record = r\<rparr>"

definition emptyCheck :: "string \<Rightarrow> boq_row dataset \<Rightarrow> boq_row exn + (boq_row, unit) quality_check" where
  "emptyCheck name data =
     Inr \<lparr>checkType = name, qc_warnings = [], qc_statistics = CheckStatistics ()\<rparr>"

definition sampleValidationEngine :: "(boq_row, unit, unit, nat) validation_engine" where
  "sampleValidationEngine =
     \<lparr>validateSchema = (\<lambda>data schema.
         Inr \<lparr>lr_errors = map schemaIssue (filter (\<lambda>r. snd r \<le> 0) (records data)),
              lr_warnings = []\<rparr>),
      validateBusinessRules = (\<lambda>data rules.
         Inr \<lparr>lr_errors = map businessIssue (filter (\<lambda>r. snd r < 1) (records data)),
              lr_warnings = []\<rparr>),
      validateCrossReferences = (\<lambda>data. Inr \<lparr>lr_errors = [], lr_warnings = []\<rparr>),
      generateRecordKey = fst,
      checkDataCompleteness = emptyCheck ''completeness'',
      checkDataConsistency = emptyCheck ''consistency'',
      checkValueRanges = emptyCheck ''ranges'',
      checkReferentialIntegrity = emptyCheck ''integrity'',
      aggregateStatistics = length,
      firstRejected = hd\<rparr>"

definition sampleSchema :: "unit validation_schema" where
  "sampleSchema = \<lparr>businessRules = ()\<rparr>"

text \<open>Three rows, the last of which repeats a code and has a negative quantity.\<close>

definition sampleRows :: "boq_row list" where
  "sampleRows = [(''A1'', 10), (''A2'', 3), (''A2'', - 5)]"

text \<open>Three valid rows, the last of which repeats a code.\<close>

definition validRows :: "boq_row list" where
  "validRows = [(''B1'', 4), (''B2'', 7), (''B2'', 1)]"

text \<open>
  A migrator over the samples: project \<^verbatim>\<open>P1\<close> holds the three rows with the
  negative quantity, project \<^verbatim>\<open>P2\<close> the three valid rows, the query for project
  \<^verbatim>\<open>P0\<close> throws \<^verbatim>\<open>null\<close>; validation is the validation engine above, and the
  import appends the rows to the store.
\<close>

definition sampleMigrator ::
    "(boq_row list, boq_row dataset, boq_row, nat, string list, boq_row list) rib_migrator" where
  "sampleMigrator =
     \<lparr>extractBOQFromRIBCandy = (\<lambda>projectId.
         if projectId = ''P1'' then Inr sampleRows
         else if projectId = ''P2'' then Inr validRows
         else if projectId = ''P0'' then Inl ThrownNullish
         else Inl (Thrown (JSError ''unknown project''))),
      transformBOQStructure = (\<lambda>src. Inr \<lparr>records = src\<rparr>),
      validateBOQData = (\<lambda>boq.
         case validateMigrationData sampleValidationEngine boq sampleSchema of
           Inl e \<Rightarrow> Inl (Thrown e)
         | Inr v \<Rightarrow> Inr v),
      importBOQ = (\<lambda>boq db. (Inr \<lparr>itemCount = length (records boq)\<rparr>, db @ records boq)),
      generateMigrationLog = Inr []\<rparr>"

text \<open>
  An Excel engine over the samples: the workbook \<^verbatim>\<open>boq.xlsx\<close> has one sheet with
  three headers and the rows with the negative quantity, \<^verbatim>\<open>valid.xlsx\<close> the same
  headers and the valid rows. The cells of a sheet are its headers and its
  rows. Headers are matched with the given similarity and the default minimum
  confidence.
\<close>

definition sampleSheet :: "boq_row list \<Rightarrow> (string list \<times> boq_row list) worksheet" where
  "sampleSheet rows = \<lparr>ws_name = ''BOQ'', cells = ([''QTY '', ''Quality'', ''Qtty''], rows)\<rparr>"

definition sampleExcelEngine ::
    "(string \<Rightarrow> string \<Rightarrow> rat)
      \<Rightarrow> (string list \<times> boq_row list, unit, boq_row dataset, boq_row, nat, unit, nat,
          boq_row list) excel_engine" where
  "sampleExcelEngine similarity =
     \<lparr>loadExcelFile = (\<lambda>filePath.
         if filePath = ''boq.xlsx'' then Inr \<lparr>worksheets = [sampleSheet sampleRows]\<rparr>
         else if filePath = ''valid.xlsx'' then Inr \<lparr>worksheets = [sampleSheet validRows]\<rparr>
         else Inl (JSError ''file not found'')),
      getTemplate = (\<lambda>templateType.
         if templateType = ''standard_boq'' then Inr boqTemplate
         else Inl (JSError ''unknown template'')),
      findHeaderRow = (\<lambda>sheet. \<lparr>hr_values = fst (cells sheet), hr_number = 1\<rparr>),
      identifyDataRange = (\<lambda>sheet hrow.
         \<lparr>startRow = 2, endRow = 1 + int (length (snd (cells sheet)))\<rparr>),
      findBestMatch = findBestMatch_spec similarity defaultMinConfidence,
      inferDataType = (\<lambda>sheet index range. ()),
      calculateMappingConfidence = (\<lambda>mappings. 1),
      extractDataFromExcel = (\<lambda>wb mapping.
         Inr \<lparr>records = concat (map (\<lambda>sheet. snd (cells sheet)) (worksheets wb))\<rparr>),
      validateExtractedData = (\<lambda>data template.
         validateMigrationData sampleValidationEngine data sampleSchema),
      generateMappingSuggestions = (\<lambda>wb template. ()),
      importData = (\<lambda>data templateType db.
         (Inr \<lparr>ir_count = length (records data)\<rparr>, db @ records data)),
      generateImportSummary = ir_count\<rparr>"

text \<open>A cost item with a negative quantity and no other defect.\<close>

definition sampleCostItem :: cost_item where
  "sampleCostItem =
     \<lparr>ci_name = ''Ready-mix concrete'', ci_description = None, ci_code = Some ''A2'',
      ci_type = ''MATERIAL'', quantity = - 5, ci_unit = ''m3'', unitCost = 120,
      categoryId = ''ckv1a2b3c4d5'', phaseId = None, ci_notes = None\<rparr>"






text \<open>
  A family of sample similarities for evaluating the mapper: every pair of
  distinct strings scores \<open>c\<close>. The rule set of the mapping scenario has the
  alias \<^verbatim>\<open>Qty\<close> for the field \<^verbatim>\<open>quantity\<close>.
\<close>

definition constSimilarity :: "rat \<Rightarrow> string \<Rightarrow> string \<Rightarrow> rat" where
  "constSimilarity c a b = (if a = b then 1 else c)"


text \<open>
  A sample reconciliation: a record is an external id and an amount, records
  match by id, the total is the sum of the amounts and the variance is the
  target total minus the source total.
\<close>

definition sampleData :: "(string \<times> rat) list \<Rightarrow> (string \<times> rat) list migrated_data" where
  "sampleData rows = \<lparr>recordCount = length rows, md_content = rows\<rparr>"

definition sampleReconciler ::
    "((string \<times> rat) list, string \<times> rat, unit, rat, rat, string list) reconciliation_engine" where
  "sampleReconciler =
     \<lparr>extractSourceData = (\<lambda>sourceId.
         if sourceId = ''src'' then Inr (sampleData [(''a'', 10), (''b'', 10)])
         else Inl (JSError ''unknown source'')),
      extractTargetData = (\<lambda>targetId.
         if targetId = ''t1'' then Inr (sampleData [(''a'', 10), (''c'', 10)])
         else if targetId = ''t2'' then Inr (sampleData [(''b'', 10), (''d'', 10)])
         else Inl (JSError ''unknown target'')),
      performReconciliation = (\<lambda>s t.
         Inr \<lparr>matches = filter (\<lambda>r. fst r \<in> fst ` set (md_content t)) (md_content s),
              unmatchedSource = filter (\<lambda>r. fst r \<notin> fst ` set (md_content t)) (md_content s),
              unmatchedTarget = filter (\<lambda>r. fst r \<notin> fst ` set (md_content s)) (md_content t),
              discrepancies = ()\<rparr>),
      calculateFinancialTotals = (\<lambda>d. sum_list (map snd (md_content d))),
      calculateVariance = (\<lambda>s t. sum_list (map snd (md_content t)) - sum_list (map snd (md_content s))),
      generateRecommendations = (\<lambda>rc.
         if unmatchedSource rc = [] \<and> unmatchedTarget rc = [] then []
         else [''review unmatched records''])\<rparr>"

definition sampleReport :: "(unit, rat, rat, string list) reconciliation_report" where
  "sampleReport =
     \<lparr>sourceRecordCount = 2, targetRecordCount = 2, matchedRecords = 1,
      rr_unmatchedSource = 1, rr_unmatchedTarget = 1, rr_discrepancies = (),
      financialTotals = \<lparr>ft_source = 20, ft_target = 20, variance = 0\<rparr>,
      recommendedActions = [''review unmatched records'']\<rparr>"

section \<open>Properties\<close>

subsection \<open>Duplicate detection\<close>

text \<open>
  The accumulator of the loop only grows at its end, so the loop can be read
  from the empty accumulator; the number of flagged records and the number of
  new keys add up to the length of the input.
\<close>

lemma dup_loop_append:
  "dup_loop key rs seen dups = dups @ dup_loop key rs seen []"
proof (induction rs arbitrary: seen dups)
  case Nil
  show ?case by simp
next
  case (Cons r rs)
  show ?case
    using Cons.IH [of "insert (key r) seen" "dups @ [\<lparr>dup_record = r, duplicateKey = key r,
        dup_message = ''Duplicate record found: '' @ key r\<rparr>]"]
      Cons.IH [of "insert (key r) seen" "[\<lparr>dup_record = r, duplicateKey = key r,
        dup_message = ''Duplicate record found: '' @ key r\<rparr>]"]
      Cons.IH [of "insert (key r) seen" dups]
    by (simp add: Let_def)
qed

lemma dup_loop_count:
  "finite seen \<Longrightarrow>
   length (dup_loop key rs seen []) + card (key ` set rs - seen) = length rs"
proof (induction rs arbitrary: seen)
  case Nil
  show ?case by simp
next
  case (Cons r rs)
  have fin: "finite (insert (key r) seen)" using Cons.prems by simp
  note IH = Cons.IH [OF fin]
  show ?case
  proof (cases "key r \<in> seen")
    case True
    then have eq: "key ` set (r # rs) - seen = key ` set rs - insert (key r) seen"
      by auto
    have "dup_loop key (r # rs) seen [] =
        \<lparr>dup_record = r, duplicateKey = key r,
          dup_message = ''Duplicate record found: '' @ key r\<rparr> # dup_loop key rs (insert (key r) seen) []"
      using True dup_loop_append [of key rs "insert (key r) seen" "[\<lparr>dup_record = r, duplicateKey = key r,
          dup_message = ''Duplicate record found: '' @ key r\<rparr>]"]
      by (simp add: Let_def)
    then show ?thesis using IH eq by simp
  next
    case False
    then have eq: "key ` set (r # rs) - seen =
        insert (key r) (key ` set rs - insert (key r) seen)"
      by auto
    have notin: "key r \<notin> key ` set rs - insert (key r) seen" by simp
    have finr: "finite (key ` set rs - insert (key r) seen)" by simp
    have "card (key ` set (r # rs) - seen) = Suc (card (key ` set rs - insert (key r) seen))"
      unfolding eq using card_insert_disjoint [OF finr notin] .
    moreover have "dup_loop key (r # rs) seen [] = dup_loop key rs (insert (key r) seen) []"
      using False by (simp add: Let_def)
    ultimately show ?thesis using IH by simp
  qed
qed

lemma dup_loop_cons:
  "dup_loop key (r # rs) seen [] =
     (if key r \<in> seen
      then \<lparr>dup_record = r, duplicateKey = key r,
             dup_message = ''Duplicate record found: '' @ key r\<rparr>
           # dup_loop key rs (insert (key r) seen) []
      else dup_loop key rs (insert (key r) seen) [])"
  using dup_loop_append [of key rs "insert (key r) seen"
      "[\<lparr>dup_record = r, duplicateKey = key r,
          dup_message = ''Duplicate record found: '' @ key r\<rparr>]"]
  by (simp add: Let_def)

lemma dup_loop_positions:
  "map dup_record (dup_loop key rs seen []) =
   map (\<lambda>i. rs ! i)
     (filter (\<lambda>i. key (rs ! i) \<in> seen \<union> key ` set (take i rs)) [0..<length rs])"
proof (induction rs arbitrary: seen)
  case Nil
  show ?case by simp
next
  case (Cons r rs)
  have upt: "[0..<length (r # rs)] = 0 # map Suc [0..<length rs]"
    by (simp add: upt_conv_Cons map_Suc_upt del: upt_Suc)
  have tl: "map (\<lambda>i. (r # rs) ! i)
        (filter (\<lambda>i. key ((r # rs) ! i) \<in> seen \<union> key ` set (take i (r # rs)))
           (map Suc [0..<length rs]))
      = map (\<lambda>i. rs ! i)
        (filter (\<lambda>i. key (rs ! i) \<in> insert (key r) seen \<union> key ` set (take i rs))
           [0..<length rs])"
    by (simp add: filter_map comp_def disj_ac)
  show ?case
    unfolding upt dup_loop_cons using Cons.IH [of "insert (key r) seen"] tl
    by (simp add: disj_ac)
qed

text \<open>
  The double model: \<open>binaryExponent\<close> is the exponent of the leading bit,
  rounding is off by at most half a unit in the last place, and the percentage
  of a count below the total is a finite double within \<open>2\<^sup>-\<^sup>4\<^sup>6\<close> of the exact
  value.
\<close>

lemma bitLength_nonneg: "0 \<le> bitLength n"
  by (induction n rule: bitLength.induct) (subst bitLength.simps, simp)

lemma bitLength_pos: "0 < n \<Longrightarrow> 1 \<le> bitLength n"
  using bitLength_nonneg [of "n div 2"] by (subst bitLength.simps) simp

lemma bitLength_bounds:
  "0 < n \<Longrightarrow> 2 ^ nat (bitLength n - 1) \<le> n \<and> n < 2 ^ nat (bitLength n)"
proof (induction n rule: bitLength.induct)
  case (1 n)
  show ?case
  proof (cases "n div 2 = 0")
    case True
    with 1 have n1: "n = 1" by presburger
    have "bitLength 1 = 1" by (simp add: bitLength.simps)
    with n1 show ?thesis by simp
  next
    case False
    with 1 have pos: "0 < n div 2" by presburger
    from 1 pos have IH: "2 ^ nat (bitLength (n div 2) - 1) \<le> n div 2"
      "n div 2 < 2 ^ nat (bitLength (n div 2))" by simp_all
    have bl: "bitLength n = 1 + bitLength (n div 2)"
      using 1 by (subst bitLength.simps) simp
    have b1: "1 \<le> bitLength (n div 2)" using bitLength_pos [OF pos] .
    have e1: "nat (bitLength n - 1) = Suc (nat (bitLength (n div 2) - 1))"
      using bl b1 by simp
    have e2: "nat (bitLength n) = Suc (nat (bitLength (n div 2)))"
      using bl b1 by simp
    have "2 * 2 ^ nat (bitLength (n div 2) - 1) \<le> 2 * (n div 2)" using IH(1) by simp
    also have "\<dots> \<le> n" by presburger
    finally have lo: "2 ^ nat (bitLength n - 1) \<le> n" by (simp add: e1)
    have "n div 2 + 1 \<le> 2 ^ nat (bitLength (n div 2))" using IH(2) by simp
    then have "2 * (n div 2 + 1) \<le> 2 * 2 ^ nat (bitLength (n div 2))" by simp
    moreover have "n < 2 * (n div 2 + 1)" by presburger
    ultimately have hi: "n < 2 ^ nat (bitLength n)" by (simp add: e2)
    from lo hi show ?thesis by simp
  qed
qed

lemma two_powi_pos: "(0::rat) < 2 powi k"
  by (rule zero_less_power_int) simp

lemma two_powi_diff: "(2::rat) powi (a - b) = 2 powi a / 2 powi b"
  by (simp add: power_int_diff)

lemma bitLength_bounds_rat:
  assumes "0 < n"
  shows "(2::rat) powi (bitLength n - 1) \<le> of_int n" and "(of_int n :: rat) < 2 powi bitLength n"
proof -
  from bitLength_bounds [OF assms] have lo: "2 ^ nat (bitLength n - 1) \<le> n"
    and hi: "n < 2 ^ nat (bitLength n)" by simp_all
  have b1: "1 \<le> bitLength n" using bitLength_pos [OF assms] .
  have "(of_int (2 ^ nat (bitLength n - 1)) :: rat) \<le> of_int n"
    using lo by (simp only: of_int_le_iff)
  then show "(2::rat) powi (bitLength n - 1) \<le> of_int n"
    using b1 by (simp add: power_int_def)
  have "(of_int n :: rat) < of_int (2 ^ nat (bitLength n))"
    using hi by (simp only: of_int_less_iff)
  then show "(of_int n :: rat) < 2 powi bitLength n"
    using b1 by (simp add: power_int_def)
qed

lemma binaryExponent_bounds:
  assumes "0 < x"
  shows "2 powi binaryExponent x \<le> x \<and> x < 2 powi (binaryExponent x + 1)"
proof -
  obtain p q where pq: "quotient_of x = (p, q)" by (cases "quotient_of x")
  then have q: "0 < q" by (rule quotient_of_denom_pos)
  have x: "x = of_int p / of_int q" using pq by (rule quotient_of_div)
  have p: "0 < p" using assms q x by (simp add: zero_less_divide_iff)
  define k where "k = bitLength p - bitLength q"
  note P = bitLength_bounds_rat [OF p]
  note Q = bitLength_bounds_rat [OF q]
  have qr: "(0::rat) < of_int q" using q by simp
  have "x < 2 powi bitLength p / of_int q"
    unfolding x using P(2) qr by (simp add: divide_strict_right_mono)
  also have "\<dots> \<le> 2 powi bitLength p / 2 powi (bitLength q - 1)"
  proof (rule divide_left_mono)
    show "2 powi (bitLength q - 1) \<le> (of_int q :: rat)" by (rule Q(1))
    show "(0::rat) \<le> 2 powi bitLength p" by (rule less_imp_le [OF two_powi_pos])
    show "(0::rat) < of_int q * 2 powi (bitLength q - 1)"
      by (rule mult_pos_pos [OF qr two_powi_pos])
  qed
  also have "\<dots> = 2 powi (bitLength p - (bitLength q - 1))"
    by (simp only: two_powi_diff)
  also have "bitLength p - (bitLength q - 1) = k + 1"
    by (simp add: k_def)
  finally have hi: "x < 2 powi (k + 1)" .
  have "k - 1 = (bitLength p - 1) - bitLength q"
    by (simp add: k_def)
  then have "(2::rat) powi (k - 1) = 2 powi (bitLength p - 1) / 2 powi bitLength q"
    by (simp only: two_powi_diff)
  also have "\<dots> \<le> of_int p / 2 powi bitLength q"
    using P(1) by (simp add: divide_right_mono)
  also have "\<dots> \<le> of_int p / of_int q"
  proof (rule divide_left_mono)
    show "(of_int q :: rat) \<le> 2 powi bitLength q" by (rule less_imp_le [OF Q(2)])
    show "(0::rat) \<le> of_int p" using p by simp
    show "(0::rat) < 2 powi bitLength q * of_int q"
      by (rule mult_pos_pos [OF two_powi_pos qr])
  qed
  finally have lo: "2 powi (k - 1) \<le> x" by (simp add: x)
  have be: "binaryExponent x = (if 2 powi k \<le> x then k else k - 1)"
    by (simp add: binaryExponent_def pq k_def Let_def)
  show ?thesis
  proof (cases "2 powi k \<le> x")
    case True
    with be hi show ?thesis by simp
  next
    case False
    with be lo show ?thesis by simp
  qed
qed

lemma two_powi_less_exp:
  assumes "(2::rat) powi a \<le> x" and "x < 2 powi b"
  shows "a < b"
proof (rule ccontr)
  assume "\<not> a < b"
  then have "b \<le> a" by simp
  then have "(2::rat) powi b \<le> 2 powi a" by (rule power_int_increasing) simp
  with assms show False by simp
qed

lemma two_powi_le_exp:
  assumes "(2::rat) powi a \<le> x" and "x \<le> 2 powi b"
  shows "a \<le> b"
proof (rule ccontr)
  assume "\<not> a \<le> b"
  then have "b < a" by simp
  then have "(2::rat) powi b < 2 powi a" by (rule power_int_strict_increasing) simp
  with assms show False by simp
qed

lemma roundHalfEven_error: "\<bar>of_int (roundHalfEven y) - y\<bar> \<le> 1 / 2"
proof -
  define f where "f = \<lfloor>y\<rfloor>"
  define d where "d = y - of_int f"
  have d0: "0 \<le> d" and d1: "d < 1" unfolding d_def f_def by linarith+
  have y: "y = of_int f + d" by (simp add: d_def)
  have r: "roundHalfEven y = (if d < 1 / 2 then f else if 1 / 2 < d then f + 1
                               else if even f then f else f + 1)"
    by (simp add: roundHalfEven_def f_def d_def Let_def)
  have "\<bar>of_int (if d < 1 / 2 then f else if 1 / 2 < d then f + 1
                      else if even f then f else f + 1) - (of_int f + d)\<bar> \<le> 1 / 2"
    using d0 d1 by (auto simp: abs_if)
  then have "\<bar>of_int (roundHalfEven y) - (of_int f + d)\<bar> \<le> 1 / 2"
    by (simp only: r)
  then show ?thesis by (simp add: d_def)
qed

lemma roundHalfEven_le:
  assumes "y \<le> of_int n"
  shows "roundHalfEven y \<le> n"
proof -
  define f where "f = \<lfloor>y\<rfloor>"
  define d where "d = y - of_int f"
  have fn: "f \<le> n" unfolding f_def using assms by (simp add: floor_le_iff)
  have r: "roundHalfEven y = (if d < 1 / 2 then f else if 1 / 2 < d then f + 1
                               else if even f then f else f + 1)"
    by (simp add: roundHalfEven_def f_def d_def Let_def)
  show ?thesis
  proof (cases "f = n")
    case True
    then have "d \<le> 0" using assms by (simp add: d_def)
    then show ?thesis using r True by simp
  next
    case False
    with fn have "f + 1 \<le> n" by simp
    then show ?thesis using r by simp
  qed
qed

lemma roundHalfEven_nonneg: "0 \<le> y \<Longrightarrow> 0 \<le> roundHalfEven y"
proof -
  assume "0 \<le> y"
  then have "0 \<le> \<lfloor>y\<rfloor>" by simp
  then show ?thesis by (simp add: roundHalfEven_def Let_def)
qed

lemma binaryExponent_zero: "binaryExponent 0 < 1024"
proof -
  have "bitLength 0 = 0" by (simp add: bitLength.simps)
  moreover have "bitLength 1 = 1" by (simp add: bitLength.simps)
  ultimately show ?thesis by (simp add: binaryExponent_def Let_def)
qed

lemma toDouble_accuracy:
  assumes pos: "0 < x" and less: "x < 2 powi j" and lo: "- 1021 \<le> j" and hi: "j \<le> 1023"
  shows "\<exists>r. toDouble x = Finite r \<and> 0 \<le> r \<and> r \<le> 2 powi j \<and> \<bar>r - x\<bar> \<le> 2 powi (j - 54)"
proof -
  define e where "e = max (binaryExponent x - 52) (- 1074)"
  define y :: rat where "y = x / 2 powi e"
  define r :: rat where "r = of_int (roundHalfEven y) * 2 powi e"
  note be = binaryExponent_bounds [OF pos]
  have bj: "binaryExponent x < j"
    using be less by (intro two_powi_less_exp [of _ x]) simp_all
  have ej: "e \<le> j - 53" using bj lo by (simp add: e_def)
  have pe: "(0::rat) < 2 powi e" by (rule two_powi_pos)
  have y0: "0 \<le> y" using pos pe by (simp add: y_def)
  have r0: "0 \<le> r"
    unfolding r_def using roundHalfEven_nonneg [OF y0] pe by simp
  have "y < 2 powi j / 2 powi e"
    unfolding y_def using less pe by (simp add: divide_strict_right_mono)
  also have "\<dots> = 2 powi (j - e)" by (simp only: two_powi_diff)
  also have "\<dots> = of_int (2 ^ nat (j - e))"
    using ej by (simp add: power_int_def)
  finally have "y \<le> of_int (2 ^ nat (j - e))" by simp
  then have "roundHalfEven y \<le> 2 ^ nat (j - e)" by (rule roundHalfEven_le)
  then have "(of_int (roundHalfEven y) :: rat) \<le> of_int (2 ^ nat (j - e))"
    by (simp only: of_int_le_iff)
  also have "(of_int (2 ^ nat (j - e)) :: rat) = 2 powi (j - e)"
    using ej by (simp add: power_int_def)
  finally have "(of_int (roundHalfEven y) :: rat) * 2 powi e \<le> 2 powi (j - e) * 2 powi e"
    using pe by (simp add: mult_right_mono)
  also have "2 powi (j - e) * (2::rat) powi e = 2 powi j"
    by (simp add: two_powi_diff)
  finally have rj: "r \<le> 2 powi j" by (simp add: r_def)
  have x: "x = y * 2 powi e" using pe by (simp add: y_def)
  have "r - x = (of_int (roundHalfEven y) - y) * 2 powi e"
    by (simp add: r_def x algebra_simps)
  then have "\<bar>r - x\<bar> = \<bar>of_int (roundHalfEven y) - y\<bar> * 2 powi e"
    using pe by (simp add: abs_mult)
  also have "\<dots> \<le> 1 / 2 * 2 powi e"
    using roundHalfEven_error [of y] pe by (intro mult_right_mono) simp_all
  also have "1 / 2 * (2::rat) powi e = 2 powi (e - 1)"
    by (simp add: two_powi_diff)
  also have "\<dots> \<le> 2 powi (j - 54)"
    using ej by (intro power_int_increasing) simp_all
  finally have err: "\<bar>r - x\<bar> \<le> 2 powi (j - 54)" .
  have nover: "\<not> 1024 \<le> binaryExponent r"
  proof (cases "r = 0")
    case True
    then show ?thesis using binaryExponent_zero by simp
  next
    case False
    with r0 have "0 < r" by simp
    from binaryExponent_bounds [OF this] rj have "binaryExponent r \<le> j"
      by (intro two_powi_le_exp [of _ r]) simp_all
    with hi show ?thesis by simp
  qed
  have "toDouble x = Finite r"
    using pos nover by (simp add: toDouble_def Let_def e_def [symmetric] y_def [symmetric]
        r_def [symmetric])
  with r0 rj err show ?thesis by simp
qed

lemma percentage_accuracy:
  assumes "n < len"
  shows "\<exists>v. jsMultiply (jsDivide n len) 100 = Finite v \<and> 0 \<le> v
       \<and> \<bar>v - of_nat n / of_nat len * 100\<bar> < 1 / 2 ^ 46"
proof (cases "n = 0")
  case True
  then show ?thesis using assms by (simp add: jsDivide_def jsMultiply_def toDouble_def)
next
  case False
  define x :: rat where "x = of_nat n / of_nat len"
  have x0: "0 < x" using False assms by (simp add: x_def)
  have x1: "x < 2 powi 0" using assms by (simp add: x_def)
  from toDouble_accuracy [OF x0 x1] obtain d where
    d: "toDouble x = Finite d" and d0: "0 \<le> d" and d1: "d \<le> 1"
    and derr: "\<bar>d - x\<bar> \<le> 2 powi (- 54)" by auto
  have q: "jsDivide n len = Finite d" using assms d by (simp add: jsDivide_def x_def)
  have e1: "\<bar>d * 100 - x * 100\<bar> \<le> 100 * 2 powi (- 54)"
  proof -
    have "d * 100 - x * 100 = (d - x) * 100" by (simp add: algebra_simps)
    then have "\<bar>d * 100 - x * 100\<bar> = \<bar>(d - x) * 100\<bar>" by (simp only:)
    also have "\<dots> = \<bar>d - x\<bar> * 100" by (simp only: abs_mult abs_numeral)
    finally have eq: "\<bar>d * 100 - x * 100\<bar> = \<bar>d - x\<bar> * 100" .
    have "\<bar>d - x\<bar> * 100 \<le> 2 powi (- 54) * 100"
      using derr by (rule mult_right_mono) simp
    then show ?thesis by (simp only: eq mult.commute)
  qed
  show ?thesis
  proof (cases "d = 0")
    case True
    then have "jsMultiply (jsDivide n len) 100 = Finite 0"
      by (simp add: q jsMultiply_def toDouble_def)
    moreover have "\<bar>0 - x * 100\<bar> < 1 / 2 ^ 46"
      using e1 True by (simp add: power_int_minus_divide)
    ultimately show ?thesis by (simp add: x_def)
  next
    case dn: False
    have y0: "0 < d * 100" using d0 dn by simp
    have y1: "d * 100 < 2 powi 7" using d1 by simp
    from toDouble_accuracy [OF y0 y1] obtain v where
      v: "toDouble (d * 100) = Finite v" and v0: "0 \<le> v"
      and verr: "\<bar>v - d * 100\<bar> \<le> 2 powi (- 47)" by auto
    have m: "jsMultiply (jsDivide n len) 100 = Finite v"
      using v by (simp add: q jsMultiply_def)
    have "\<bar>v - x * 100\<bar> \<le> \<bar>v - d * 100\<bar> + \<bar>d * 100 - x * 100\<bar>" by simp
    also have "\<dots> \<le> 2 powi (- 47) + 100 * 2 powi (- 54)"
      using verr e1 by simp
    also have "\<dots> < 1 / 2 ^ 46" by (simp add: power_int_minus_divide)
    finally have "\<bar>v - x * 100\<bar> < 1 / 2 ^ 46" .
    with m v0 show ?thesis by (auto simp: x_def)
  qed
qed

text \<open>
  Claim C10. In \<^verbatim>\<open>checkForDuplicates\<close> the first occurrence of a key is never
  flagged: the flagged records are exactly those at a position whose key
  occurs at an earlier position, so the number of warnings is the number of
  records minus the number of distinct keys. Every issue has severity
  \<^verbatim>\<open>warning\<close>, \<^verbatim>\<open>duplicateCount\<close> is that number, and \<^verbatim>\<open>duplicatePercentage\<close> is
  the double that \<^verbatim>\<open>duplicateCount / totalRecords * 100\<close> evaluates to: the
  quotient rounded to a double, multiplied by 100 and rounded again. On an
  empty list it is \<^verbatim>\<open>NaN\<close>; otherwise it is a finite double that differs from
  the exact percentage by less than \<open>2\<^sup>-\<^sup>4\<^sup>6\<close>.
\<close>

theorem checkForDuplicates_first_occurrence_kept:
  fixes key :: "'r \<Rightarrow> string" and data :: "'r dataset"
  defines "chk \<equiv> (checkForDuplicates key data :: ('r, 's) quality_check)"
  defines "n \<equiv> length (records data) - card (key ` set (records data))"
  shows "length (qc_warnings chk) = n
   \<and> map severity (qc_warnings chk) = replicate n Warning
   \<and> map issue_record (qc_warnings chk)
       = map (\<lambda>i. records data ! i)
           (filter (\<lambda>i. key (records data ! i) \<in> key ` set (take i (records data)))
              [0..<length (records data)])
   \<and> qc_statistics chk = DuplicateStatistics
        \<lparr>totalRecords = length (records data),
         duplicateCount = n,
         duplicatePercentage = jsMultiply (jsDivide n (length (records data))) 100\<rparr>
   \<and> (length (records data) = 0 \<longrightarrow>
        qc_statistics chk = DuplicateStatistics
          \<lparr>totalRecords = 0, duplicateCount = 0, duplicatePercentage = NaN\<rparr>)
   \<and> (records data \<noteq> [] \<longrightarrow>
        (\<exists>v. qc_statistics chk = DuplicateStatistics
               \<lparr>totalRecords = length (records data), duplicateCount = n,
                duplicatePercentage = Finite v\<rparr>
           \<and> 0 \<le> v
           \<and> \<bar>v - of_nat n / of_nat (length (records data)) * 100\<bar> < 1 / 2 ^ 46))"
proof -
  define rs where "rs = records data"
  have cnt: "length (dup_loop key rs {} []) = length rs - card (key ` set rs)"
    using dup_loop_count [of "{}" key rs] by simp
  have pos: "map dup_record (dup_loop key rs {} []) =
      map (\<lambda>i. rs ! i) (filter (\<lambda>i. key (rs ! i) \<in> key ` set (take i rs)) [0..<length rs])"
    using dup_loop_positions [of key rs "{}"] by simp
  have sev: "map severity (map (\<lambda>d. \<lparr>severity = Warning, message = dup_message d,
                                issue_record = dup_record d\<rparr>) (dup_loop key rs {} []))
      = replicate (length rs - card (key ` set rs)) Warning"
    using cnt by (simp add: comp_def map_replicate_const)
  have nan: "jsMultiply (jsDivide 0 0) 100 = NaN"
    by (simp add: jsMultiply_def jsDivide_def)
  have main: "length (qc_warnings chk) = n
   \<and> map severity (qc_warnings chk) = replicate n Warning
   \<and> map issue_record (qc_warnings chk)
       = map (\<lambda>i. records data ! i)
           (filter (\<lambda>i. key (records data ! i) \<in> key ` set (take i (records data)))
              [0..<length (records data)])
   \<and> qc_statistics chk = DuplicateStatistics
        \<lparr>totalRecords = length (records data),
         duplicateCount = n,
         duplicatePercentage = jsMultiply (jsDivide n (length (records data))) 100\<rparr>
   \<and> (length (records data) = 0 \<longrightarrow>
        qc_statistics chk = DuplicateStatistics
          \<lparr>totalRecords = 0, duplicateCount = 0, duplicatePercentage = NaN\<rparr>)"
    using cnt pos sev nan
    by (simp add: chk_def n_def rs_def checkForDuplicates_def Let_def comp_def)
  have acc: "records data \<noteq> [] \<longrightarrow>
        (\<exists>v. qc_statistics chk = DuplicateStatistics
               \<lparr>totalRecords = length (records data), duplicateCount = n,
                duplicatePercentage = Finite v\<rparr>
           \<and> 0 \<le> v
           \<and> \<bar>v - of_nat n / of_nat (length (records data)) * 100\<bar> < 1 / 2 ^ 46)"
  proof
    assume ne: "records data \<noteq> []"
    then have "key ` set (records data) \<noteq> {}" by simp
    then have "0 < card (key ` set (records data))" by (simp add: card_gt_0_iff)
    moreover have "0 < length (records data)" using ne by simp
    ultimately have "n < length (records data)" by (simp add: n_def)
    from percentage_accuracy [OF this] obtain v where
      "jsMultiply (jsDivide n (length (records data))) 100 = Finite v" "0 \<le> v"
      "\<bar>v - of_nat n / of_nat (length (records data)) * 100\<bar> < 1 / 2 ^ 46"
      by blast
    with main show "\<exists>v. qc_statistics chk = DuplicateStatistics
               \<lparr>totalRecords = length (records data), duplicateCount = n,
                duplicatePercentage = Finite v\<rparr>
           \<and> 0 \<le> v
           \<and> \<bar>v - of_nat n / of_nat (length (records data)) * 100\<bar> < 1 / 2 ^ 46"
      by simp
  qed
  from main acc show ?thesis by (intro conjI) (elim conjE, assumption)+
qed

lemma double_two_thirds_percent:
  "jsMultiply (jsDivide 2 3) 100 = Finite (2345624805922133 / 35184372088832)"
  by code_simp

theorem checkForDuplicates_first_occurrence_kept_witness:
  "qc_statistics (checkForDuplicates (\<lambda>r. r) \<lparr>records = [''a'', ''a'', ''a'']\<rparr>
      :: (string, unit) quality_check)
     = DuplicateStatistics
         \<lparr>totalRecords = 3, duplicateCount = 2,
          duplicatePercentage = Finite (2345624805922133 / 35184372088832)\<rparr>
   \<and> length (qc_warnings (checkForDuplicates (\<lambda>r. r) \<lparr>records = [''a'', ''b'', ''a'']\<rparr>
      :: (string, unit) quality_check)) = 1
   \<and> qc_statistics (checkForDuplicates (\<lambda>r. r) \<lparr>records = ([] :: string list)\<rparr>
      :: (string, unit) quality_check)
     = DuplicateStatistics \<lparr>totalRecords = 0, duplicateCount = 0, duplicatePercentage = NaN\<rparr>
   \<and> \<bar>(2345624805922133 / 35184372088832 :: rat) - 2 / 3 * 100\<bar> < 1 / 2 ^ 46"
proof -
  have c: "card {''a'', ''b'', ''a''} = (2::nat)" "card {''a'', ''a'', ''a''} = (1::nat)"
    by (simp_all add: card_insert_if)
  note t = checkForDuplicates_first_occurrence_kept
  have d: "jsMultiply (jsDivide (Suc (Suc 0)) (Suc (Suc (Suc 0)))) 100
      = Finite (2345624805922133 / 35184372088832)"
    using double_two_thirds_percent by (simp add: numeral_2_eq_2 numeral_3_eq_3)
  have a: "qc_statistics (checkForDuplicates (\<lambda>r. r) \<lparr>records = [''a'', ''a'', ''a'']\<rparr>
      :: (string, unit) quality_check)
     = DuplicateStatistics
         \<lparr>totalRecords = 3, duplicateCount = 2,
          duplicatePercentage = Finite (2345624805922133 / 35184372088832)\<rparr>"
    using t [of "\<lambda>r. r" "\<lparr>records = [''a'', ''a'', ''a'']\<rparr>",
        THEN conjunct2, THEN conjunct2, THEN conjunct2, THEN conjunct1]
      c d
    by (simp add: numeral_2_eq_2 numeral_3_eq_3)
  have b: "length (qc_warnings (checkForDuplicates (\<lambda>r. r) \<lparr>records = [''a'', ''b'', ''a'']\<rparr>
      :: (string, unit) quality_check)) = 1"
    using t [of "\<lambda>r. r" "\<lparr>records = [''a'', ''b'', ''a'']\<rparr>", THEN conjunct1] c by simp
  have e: "qc_statistics (checkForDuplicates (\<lambda>r. r) \<lparr>records = ([] :: string list)\<rparr>
      :: (string, unit) quality_check)
     = DuplicateStatistics \<lparr>totalRecords = 0, duplicateCount = 0, duplicatePercentage = NaN\<rparr>"
    using t [of "\<lambda>r. r" "\<lparr>records = ([] :: string list)\<rparr>",
        THEN conjunct2, THEN conjunct2, THEN conjunct2, THEN conjunct2, THEN conjunct1]
    by simp
  have "\<exists>v. qc_statistics (checkForDuplicates (\<lambda>r. r) \<lparr>records = [''a'', ''a'', ''a'']\<rparr>
           :: (string, unit) quality_check)
         = DuplicateStatistics \<lparr>totalRecords = 3, duplicateCount = 2,
             duplicatePercentage = Finite v\<rparr>
       \<and> 0 \<le> v \<and> \<bar>v - 2 / 3 * 100\<bar> < 1 / 2 ^ 46"
    using t [of "\<lambda>r. r" "\<lparr>records = [''a'', ''a'', ''a'']\<rparr>",
        THEN conjunct2, THEN conjunct2, THEN conjunct2, THEN conjunct2, THEN conjunct2]
      c
    by (simp add: numeral_2_eq_2 numeral_3_eq_3)
  with a have f: "\<bar>(2345624805922133 / 35184372088832 :: rat) - 2 / 3 * 100\<bar> < 1 / 2 ^ 46"
    by simp
  from a b e f show ?thesis by simp
qed

subsection \<open>The verdict of the validation engine\<close>

lemma validateMigrationData_Inr:
  assumes "validateMigrationData eng data schema = Inr res"
  shows "\<exists>sr br qr cr.
      validateSchema eng data schema = Inr sr
    \<and> validateBusinessRules eng data (businessRules schema) = Inr br
    \<and> performQualityChecks eng data = Inr qr
    \<and> validateCrossReferences eng data = Inr cr
    \<and> res = \<lparr>isValid = (lr_errors sr @ lr_errors br @ lr_errors cr = []),
             errors = lr_errors sr @ lr_errors br @ lr_errors cr,
             warnings = lr_warnings sr @ lr_warnings br @ qr_warnings qr,
             statistics = qr_statistics qr\<rparr>"
  using assms
  by (auto simp: validateMigrationData_def Let_def split: sum.splits)

lemma validateMigrationData_returns:
  assumes "validateSchema eng data schema = Inr sr"
    and "validateBusinessRules eng data (businessRules schema) = Inr br"
    and "performQualityChecks eng data = Inr qr"
    and "validateCrossReferences eng data = Inr cr"
  shows "validateMigrationData eng data schema =
      Inr \<lparr>isValid = (lr_errors sr @ lr_errors br @ lr_errors cr = []),
           errors = lr_errors sr @ lr_errors br @ lr_errors cr,
           warnings = lr_warnings sr @ lr_warnings br @ qr_warnings qr,
           statistics = qr_statistics qr\<rparr>"
  using assms by (simp add: validateMigrationData_def Let_def)

lemma promise_all_Inr: "promise_all pick ps = Inr xs \<Longrightarrow> rejections ps = [] \<and> xs = fulfilments ps"
  by (auto simp: promise_all_def split: list.splits)

lemma performQualityChecks_returns:
  fixes eng :: "('r, 'b, 's, 'a) validation_engine"
  assumes "checkDataCompleteness eng data = Inr c1"
    and "checkDataConsistency eng data = Inr c2"
    and "checkValueRanges eng data = Inr c3"
    and "checkReferentialIntegrity eng data = Inr c4"
  shows "performQualityChecks eng data =
     Inr \<lparr>qr_warnings = qc_warnings (checkForDuplicates (generateRecordKey eng) data
                                       :: ('r, 's) quality_check)
                         @ qc_warnings c1 @ qc_warnings c2 @ qc_warnings c3 @ qc_warnings c4,
          qr_statistics = aggregateStatistics eng
            [checkForDuplicates (generateRecordKey eng) data, c1, c2, c3, c4]\<rparr>"
  using assms by (simp add: performQualityChecks_def promise_all_def Let_def)

lemma performQualityChecks_duplicates_first:
  fixes eng :: "('r, 'b, 's, 'a) validation_engine"
  assumes "performQualityChecks eng data = Inr qr"
  shows "\<exists>rest. qr_warnings qr
      = qc_warnings (checkForDuplicates (generateRecordKey eng) data :: ('r, 's) quality_check) @ rest"
proof -
  from assms obtain results where
    r: "promise_all (firstRejected eng)
          [Inr (checkForDuplicates (generateRecordKey eng) data),
           checkDataCompleteness eng data, checkDataConsistency eng data,
           checkValueRanges eng data, checkReferentialIntegrity eng data] = Inr results"
    and q: "qr_warnings qr = concat (map qc_warnings results)"
    by (auto simp: performQualityChecks_def Let_def split: sum.splits)
  from promise_all_Inr [OF r] have
    "results = checkForDuplicates (generateRecordKey eng) data
       # fulfilments [checkDataCompleteness eng data, checkDataConsistency eng data,
           checkValueRanges eng data, checkReferentialIntegrity eng data]"
    by simp
  with q show ?thesis by simp
qed

lemma migrateExcelWorkbook_rejects_invalid:
  assumes "loadExcelFile xe filePath = Inr wb"
    and "getTemplate xe templateType = Inr t"
    and "extractDataFromExcel xe wb (detectDataStructure xe wb t) = Inr d"
    and "validateExtractedData xe d t = Inr res"
    and "\<not> isValid res"
  shows "migrateExcelWorkbook xe filePath templateType db =
      (Inr (ExcelFailure (errors res) (generateMappingSuggestions xe wb t)), db)"
  using assms by (simp add: migrateExcelWorkbook_def Let_def)

lemma migrateExcelWorkbook_imports_valid:
  assumes "loadExcelFile xe filePath = Inr wb"
    and "getTemplate xe templateType = Inr t"
    and "extractDataFromExcel xe wb (detectDataStructure xe wb t) = Inr d"
    and "validateExtractedData xe d t = Inr res"
    and "isValid res"
  shows "migrateExcelWorkbook xe filePath templateType db =
      (case importData xe d templateType db of
         (Inl e, db') \<Rightarrow> (Inl e, db')
       | (Inr importResult, db') \<Rightarrow>
           (Inr (ExcelSuccess (ir_count importResult) (warnings res)
                   (generateImportSummary xe importResult)), db'))"
  using assms by (simp add: migrateExcelWorkbook_def Let_def)

lemma migrateBOQData_rejects_invalid:
  assumes "extractBOQFromRIBCandy m projectId = Inr src"
    and "transformBOQStructure m src = Inr boq"
    and "validateBOQData m boq = Inr res"
    and "\<not> isValid res"
  shows "migrateBOQData m projectId db =
      (case generateMigrationLog m of
         Inl e \<Rightarrow> (Inl e, db)
       | Inr migrationLog \<Rightarrow>
           (Inr (MigrationFailure (Some ''BOQ validation failed'') migrationLog), db))"
  using assms by (simp add: migrateBOQData_def migrateBOQData_try_def)

lemma migrateBOQData_imports_valid:
  assumes "extractBOQFromRIBCandy m projectId = Inr src"
    and "transformBOQStructure m src = Inr boq"
    and "validateBOQData m boq = Inr res"
    and "isValid res"
  shows "snd (migrateBOQData m projectId db) = snd (importBOQ m boq db)
     \<and> (\<forall>importResult db' migrationLog.
           importBOQ m boq db = (Inr importResult, db')
         \<and> generateMigrationLog m = Inr migrationLog \<longrightarrow>
           migrateBOQData m projectId db =
             (Inr (MigrationSuccess (itemCount importResult) (warnings res) migrationLog), db'))"
  using assms
  by (auto simp: migrateBOQData_def migrateBOQData_try_def split: sum.splits prod.splits)

lemma sample_validation:
  "validateMigrationData sampleValidationEngine \<lparr>records = sampleRows\<rparr> sampleSchema
   = Inr \<lparr>isValid = False,
          errors = [schemaIssue (''A2'', - 5), businessIssue (''A2'', - 5)],
          warnings = [\<lparr>severity = Warning, message = ''Duplicate record found: A2'',
                       issue_record = (''A2'', - 5)\<rparr>],
          statistics = 5\<rparr>"
  by (simp add: validateMigrationData_def performQualityChecks_def checkForDuplicates_def
      promise_all_def sampleValidationEngine_def sampleSchema_def sampleRows_def emptyCheck_def
      Let_def)

lemma sample_valid_validation:
  "validateMigrationData sampleValidationEngine \<lparr>records = validRows\<rparr> sampleSchema
   = Inr \<lparr>isValid = True,
          errors = [],
          warnings = [\<lparr>severity = Warning, message = ''Duplicate record found: B2'',
                       issue_record = (''B2'', 1)\<rparr>],
          statistics = 5\<rparr>"
  by (simp add: validateMigrationData_def performQualityChecks_def checkForDuplicates_def
      promise_all_def sampleValidationEngine_def sampleSchema_def validRows_def emptyCheck_def
      Let_def)

text \<open>
  Claim C1. \<^verbatim>\<open>validateMigrationData\<close> sets \<^verbatim>\<open>isValid\<close> exactly when the accumulated list
  \<^verbatim>\<open>errors\<close> is empty. It returns a result whenever the validation layers and
  the quality checks return: its errors are those of schema, business-rule and
  cross-reference validation, so it is valid exactly when none of the three
  reported an error, whatever warnings the layers and the quality checks
  (duplicates included) produced; the warnings are only collected. Both
  importers act on this verdict: on a valid result \<^verbatim>\<open>migrateExcelWorkbook\<close> and
  \<^verbatim>\<open>migrateBOQData\<close> make their import call with the whole data set and report
  its count together with the warnings; on a result that is not valid they
  return an error result and leave the destination store as it was, so no
  record of a data set with an error-severity issue is imported.
\<close>

theorem validateMigrationData_isValid_iff_no_errors:
  fixes eng :: "('r, 'b, 's, 'a) validation_engine"
  shows "(\<forall>res. validateMigrationData eng data schema = Inr res \<longrightarrow>
            (isValid res \<longleftrightarrow> errors res = []))
    \<and> (\<forall>sr br cr c1 c2 c3 c4.
          validateSchema eng data schema = Inr sr
        \<and> validateBusinessRules eng data (businessRules schema) = Inr br
        \<and> checkDataCompleteness eng data = Inr c1
        \<and> checkDataConsistency eng data = Inr c2
        \<and> checkValueRanges eng data = Inr c3
        \<and> checkReferentialIntegrity eng data = Inr c4
        \<and> validateCrossReferences eng data = Inr cr
        \<longrightarrow> (\<exists>res. validateMigrationData eng data schema = Inr res
              \<and> errors res = lr_errors sr @ lr_errors br @ lr_errors cr
              \<and> (isValid res \<longleftrightarrow> lr_errors sr = [] \<and> lr_errors br = [] \<and> lr_errors cr = [])
              \<and> warnings res = lr_warnings sr @ lr_warnings br
                   @ qc_warnings (checkForDuplicates (generateRecordKey eng) data
                                    :: ('r, 's) quality_check)
                   @ qc_warnings c1 @ qc_warnings c2 @ qc_warnings c3 @ qc_warnings c4))
    \<and> (\<forall>res. validateMigrationData eng data schema = Inr res \<longrightarrow>
          (\<forall>xe filePath templateType db wb t d.
              loadExcelFile xe filePath = Inr wb \<and> getTemplate xe templateType = Inr t
            \<and> extractDataFromExcel xe wb (detectDataStructure xe wb t) = Inr d
            \<and> validateExtractedData xe d t = Inr res
            \<longrightarrow> migrateExcelWorkbook xe filePath templateType db =
                  (if isValid res
                   then (case importData xe d templateType db of
                           (Inl e, db') \<Rightarrow> (Inl e, db')
                         | (Inr importResult, db') \<Rightarrow>
                             (Inr (ExcelSuccess (ir_count importResult) (warnings res)
                                     (generateImportSummary xe importResult)), db'))
                   else (Inr (ExcelFailure (errors res)
                                (generateMappingSuggestions xe wb t)), db)))
        \<and> (\<forall>m projectId db src boq.
              extractBOQFromRIBCandy m projectId = Inr src
            \<and> transformBOQStructure m src = Inr boq
            \<and> validateBOQData m boq = Inr res
            \<longrightarrow> (if isValid res
                 then snd (migrateBOQData m projectId db) = snd (importBOQ m boq db)
                    \<and> (\<forall>importResult db' migrationLog.
                          importBOQ m boq db = (Inr importResult, db')
                        \<and> generateMigrationLog m = Inr migrationLog \<longrightarrow>
                          migrateBOQData m projectId db =
                            (Inr (MigrationSuccess (itemCount importResult) (warnings res)
                                    migrationLog), db'))
                 else migrateBOQData m projectId db =
                        (case generateMigrationLog m of
                           Inl e \<Rightarrow> (Inl e, db)
                         | Inr migrationLog \<Rightarrow>
                             (Inr (MigrationFailure (Some ''BOQ validation failed'')
                                     migrationLog), db)))))"
proof (intro conjI)
  show "\<forall>res. validateMigrationData eng data schema = Inr res \<longrightarrow>
            (isValid res \<longleftrightarrow> errors res = [])"
    using validateMigrationData_Inr [of eng data schema] by fastforce
next
  show "\<forall>sr br cr c1 c2 c3 c4.
          validateSchema eng data schema = Inr sr
        \<and> validateBusinessRules eng data (businessRules schema) = Inr br
        \<and> checkDataCompleteness eng data = Inr c1
        \<and> checkDataConsistency eng data = Inr c2
        \<and> checkValueRanges eng data = Inr c3
        \<and> checkReferentialIntegrity eng data = Inr c4
        \<and> validateCrossReferences eng data = Inr cr
        \<longrightarrow> (\<exists>res. validateMigrationData eng data schema = Inr res
              \<and> errors res = lr_errors sr @ lr_errors br @ lr_errors cr
              \<and> (isValid res \<longleftrightarrow> lr_errors sr = [] \<and> lr_errors br = [] \<and> lr_errors cr = [])
              \<and> warnings res = lr_warnings sr @ lr_warnings br
                   @ qc_warnings (checkForDuplicates (generateRecordKey eng) data
                                    :: ('r, 's) quality_check)
                   @ qc_warnings c1 @ qc_warnings c2 @ qc_warnings c3 @ qc_warnings c4)"
  proof (intro allI impI, elim conjE)
    fix sr br cr c1 c2 c3 c4
    assume a: "validateSchema eng data schema = Inr sr"
      "validateBusinessRules eng data (businessRules schema) = Inr br"
      "validateCrossReferences eng data = Inr cr"
      and c: "checkDataCompleteness eng data = Inr c1" "checkDataConsistency eng data = Inr c2"
      "checkValueRanges eng data = Inr c3" "checkReferentialIntegrity eng data = Inr c4"
    note q = performQualityChecks_returns [OF c]
    from validateMigrationData_returns [OF a(1) a(2) q a(3)]
    show "\<exists>res. validateMigrationData eng data schema = Inr res
              \<and> errors res = lr_errors sr @ lr_errors br @ lr_errors cr
              \<and> (isValid res \<longleftrightarrow> lr_errors sr = [] \<and> lr_errors br = [] \<and> lr_errors cr = [])
              \<and> warnings res = lr_warnings sr @ lr_warnings br
                   @ qc_warnings (checkForDuplicates (generateRecordKey eng) data
                                    :: ('r, 's) quality_check)
                   @ qc_warnings c1 @ qc_warnings c2 @ qc_warnings c3 @ qc_warnings c4"
      by simp
  qed
next
  show "\<forall>res. validateMigrationData eng data schema = Inr res \<longrightarrow>
          (\<forall>xe filePath templateType db wb t d.
              loadExcelFile xe filePath = Inr wb \<and> getTemplate xe templateType = Inr t
            \<and> extractDataFromExcel xe wb (detectDataStructure xe wb t) = Inr d
            \<and> validateExtractedData xe d t = Inr res
            \<longrightarrow> migrateExcelWorkbook xe filePath templateType db =
                  (if isValid res
                   then (case importData xe d templateType db of
                           (Inl e, db') \<Rightarrow> (Inl e, db')
                         | (Inr importResult, db') \<Rightarrow>
                             (Inr (ExcelSuccess (ir_count importResult) (warnings res)
                                     (generateImportSummary xe importResult)), db'))
                   else (Inr (ExcelFailure (errors res)
                                (generateMappingSuggestions xe wb t)), db)))
        \<and> (\<forall>m projectId db src boq.
              extractBOQFromRIBCandy m projectId = Inr src
            \<and> transformBOQStructure m src = Inr boq
            \<and> validateBOQData m boq = Inr res
            \<longrightarrow> (if isValid res
                 then snd (migrateBOQData m projectId db) = snd (importBOQ m boq db)
                    \<and> (\<forall>importResult db' migrationLog.
                          importBOQ m boq db = (Inr importResult, db')
                        \<and> generateMigrationLog m = Inr migrationLog \<longrightarrow>
                          migrateBOQData m projectId db =
                            (Inr (MigrationSuccess (itemCount importResult) (warnings res)
                                    migrationLog), db'))
                 else migrateBOQData m projectId db =
                        (case generateMigrationLog m of
                           Inl e \<Rightarrow> (Inl e, db)
                         | Inr migrationLog \<Rightarrow>
                             (Inr (MigrationFailure (Some ''BOQ validation failed'')
                                     migrationLog), db))))"
    apply (intro allI impI conjI; elim conjE)
     apply (case_tac "isValid res")
      apply (simp add: migrateExcelWorkbook_imports_valid)
     apply (simp add: migrateExcelWorkbook_rejects_invalid)
    apply (case_tac "isValid res")
     apply (simp only: if_True)
     apply (rule migrateBOQData_imports_valid; assumption)
    apply (simp only: if_False)
    apply (rule migrateBOQData_rejects_invalid; assumption)
    done
qed

theorem validateMigrationData_isValid_iff_no_errors_witness:
  "validateMigrationData sampleValidationEngine \<lparr>records = validRows\<rparr> sampleSchema
     = Inr \<lparr>isValid = True, errors = [],
            warnings = [\<lparr>severity = Warning, message = ''Duplicate record found: B2'',
                         issue_record = (''B2'', 1)\<rparr>],
            statistics = 5\<rparr>
   \<and> migrateBOQData sampleMigrator ''P2'' [(''Z9'', 1)]
       = (Inr (MigrationSuccess 3
                 [\<lparr>severity = Warning, message = ''Duplicate record found: B2'',
                    issue_record = (''B2'', 1)\<rparr>] []),
          [(''Z9'', 1), (''B1'', 4), (''B2'', 7), (''B2'', 1)])
   \<and> validateMigrationData sampleValidationEngine \<lparr>records = sampleRows\<rparr> sampleSchema
     = Inr \<lparr>isValid = False,
            errors = [schemaIssue (''A2'', - 5), businessIssue (''A2'', - 5)],
            warnings = [\<lparr>severity = Warning, message = ''Duplicate record found: A2'',
                         issue_record = (''A2'', - 5)\<rparr>],
            statistics = 5\<rparr>
   \<and> migrateBOQData sampleMigrator ''P1'' [(''Z9'', 1)]
       = (Inr (MigrationFailure (Some ''BOQ validation failed'') []), [(''Z9'', 1)])"
proof -
  let ?valid = "\<lparr>isValid = True, errors = [],
            warnings = [\<lparr>severity = Warning, message = ''Duplicate record found: B2'',
                         issue_record = (''B2'', (1::rat))\<rparr>],
            statistics = (5::nat)\<rparr>"
  let ?invalid = "\<lparr>isValid = False,
            errors = [schemaIssue (''A2'', - 5), businessIssue (''A2'', - 5)],
            warnings = [\<lparr>severity = Warning, message = ''Duplicate record found: A2'',
                         issue_record = (''A2'', - (5::rat))\<rparr>],
            statistics = (5::nat)\<rparr>"
  note tv = validateMigrationData_isValid_iff_no_errors
      [of sampleValidationEngine "\<lparr>records = validRows\<rparr>" sampleSchema]
  note ti = validateMigrationData_isValid_iff_no_errors
      [of sampleValidationEngine "\<lparr>records = sampleRows\<rparr>" sampleSchema]
  have layers: "validateSchema sampleValidationEngine \<lparr>records = validRows\<rparr> sampleSchema
        = Inr \<lparr>lr_errors = [], lr_warnings = []\<rparr>
      \<and> validateBusinessRules sampleValidationEngine \<lparr>records = validRows\<rparr>
          (businessRules sampleSchema) = Inr \<lparr>lr_errors = [], lr_warnings = []\<rparr>
      \<and> checkDataCompleteness sampleValidationEngine \<lparr>records = validRows\<rparr>
          = Inr \<lparr>checkType = ''completeness'', qc_warnings = [],
                 qc_statistics = CheckStatistics ()\<rparr>
      \<and> checkDataConsistency sampleValidationEngine \<lparr>records = validRows\<rparr>
          = Inr \<lparr>checkType = ''consistency'', qc_warnings = [],
                 qc_statistics = CheckStatistics ()\<rparr>
      \<and> checkValueRanges sampleValidationEngine \<lparr>records = validRows\<rparr>
          = Inr \<lparr>checkType = ''ranges'', qc_warnings = [], qc_statistics = CheckStatistics ()\<rparr>
      \<and> checkReferentialIntegrity sampleValidationEngine \<lparr>records = validRows\<rparr>
          = Inr \<lparr>checkType = ''integrity'', qc_warnings = [],
                 qc_statistics = CheckStatistics ()\<rparr>
      \<and> validateCrossReferences sampleValidationEngine \<lparr>records = validRows\<rparr>
          = Inr \<lparr>lr_errors = [], lr_warnings = []\<rparr>"
    by (simp add: sampleValidationEngine_def sampleSchema_def validRows_def emptyCheck_def)
  from tv [THEN conjunct2, THEN conjunct1, rule_format, OF layers]
  obtain res where res: "validateMigrationData sampleValidationEngine
        \<lparr>records = validRows\<rparr> sampleSchema = Inr res" and "isValid res"
    by auto
  with sample_valid_validation have v: "validateMigrationData sampleValidationEngine
        \<lparr>records = validRows\<rparr> sampleSchema = Inr ?valid"
    by simp
  have s2: "extractBOQFromRIBCandy sampleMigrator ''P2'' = Inr validRows
      \<and> transformBOQStructure sampleMigrator validRows = Inr \<lparr>records = validRows\<rparr>
      \<and> validateBOQData sampleMigrator \<lparr>records = validRows\<rparr> = Inr ?valid"
    by (simp add: sampleMigrator_def sample_valid_validation)
  have s1: "extractBOQFromRIBCandy sampleMigrator ''P1'' = Inr sampleRows
      \<and> transformBOQStructure sampleMigrator sampleRows = Inr \<lparr>records = sampleRows\<rparr>
      \<and> validateBOQData sampleMigrator \<lparr>records = sampleRows\<rparr> = Inr ?invalid"
    by (simp add: sampleMigrator_def sample_validation)
  have i2: "importBOQ sampleMigrator \<lparr>records = validRows\<rparr> [(''Z9'', 1)]
        = (Inr \<lparr>itemCount = 3\<rparr>, [(''Z9'', 1), (''B1'', 4), (''B2'', 7), (''B2'', 1)])
      \<and> generateMigrationLog sampleMigrator = Inr []"
    by (simp add: sampleMigrator_def validRows_def)
  from tv [THEN conjunct2, THEN conjunct2, rule_format, OF v, THEN conjunct2, rule_format, OF s2]
  have "migrateBOQData sampleMigrator ''P2'' [(''Z9'', 1)]
       = (Inr (MigrationSuccess 3
                 [\<lparr>severity = Warning, message = ''Duplicate record found: B2'',
                    issue_record = (''B2'', 1)\<rparr>] []),
          [(''Z9'', 1), (''B1'', 4), (''B2'', 7), (''B2'', 1)])"
    using i2 by simp
  moreover
  from ti [THEN conjunct2, THEN conjunct2, rule_format, OF sample_validation, THEN conjunct2,
      rule_format, OF s1]
  have "migrateBOQData sampleMigrator ''P1'' [(''Z9'', 1)]
       = (Inr (MigrationFailure (Some ''BOQ validation failed'') []), [(''Z9'', 1)])"
    by (simp add: sampleMigrator_def)
  ultimately show ?thesis
    using v sample_validation by simp
qed

lemma sample_layers:
  "validateSchema sampleValidationEngine \<lparr>records = sampleRows\<rparr> sampleSchema
     = Inr \<lparr>lr_errors = [schemaIssue (''A2'', - 5)], lr_warnings = []\<rparr>"
  "validateBusinessRules sampleValidationEngine \<lparr>records = sampleRows\<rparr> (businessRules sampleSchema)
     = Inr \<lparr>lr_errors = [businessIssue (''A2'', - 5)], lr_warnings = []\<rparr>"
  "performQualityChecks sampleValidationEngine \<lparr>records = sampleRows\<rparr>
     = Inr \<lparr>qr_warnings = [\<lparr>severity = Warning, message = ''Duplicate record found: A2'',
                       issue_record = (''A2'', - 5)\<rparr>], qr_statistics = 5\<rparr>"
  "validateCrossReferences sampleValidationEngine \<lparr>records = sampleRows\<rparr>
     = Inr \<lparr>lr_errors = [], lr_warnings = []\<rparr>"
  by (simp_all add: performQualityChecks_def checkForDuplicates_def promise_all_def
      sampleValidationEngine_def sampleSchema_def sampleRows_def emptyCheck_def Let_def)

text \<open>
  Claim C4, as the code has it. \<^verbatim>\<open>validateMigrationData\<close> calls schema validation,
  business-rule validation, the quality checks and cross-reference validation
  in this order, each on the whole data set and each unconditionally: what
  schema validation reports does not keep the later layers from running. The
  errors of the result are those of schema, business-rule and cross-reference
  validation, in this order; its warnings are those of schema validation, of
  business-rule validation and of the quality checks, the duplicate warnings
  first among the latter.
\<close>

theorem validateMigrationData_runs_every_layer:
  fixes eng :: "('r, 'b, 's, 'a) validation_engine"
  assumes "validateSchema eng data schema = Inr sr"
    and "validateBusinessRules eng data (businessRules schema) = Inr br"
    and "performQualityChecks eng data = Inr qr"
    and "validateCrossReferences eng data = Inr cr"
  shows "validateMigrationData eng data schema =
      Inr \<lparr>isValid = (lr_errors sr @ lr_errors br @ lr_errors cr = []),
           errors = lr_errors sr @ lr_errors br @ lr_errors cr,
           warnings = lr_warnings sr @ lr_warnings br @ qr_warnings qr,
           statistics = qr_statistics qr\<rparr>
    \<and> (\<exists>rest. qr_warnings qr =
          qc_warnings (checkForDuplicates (generateRecordKey eng) data :: ('r, 's) quality_check)
          @ rest)"
  using validateMigrationData_returns [OF assms] performQualityChecks_duplicates_first [OF assms(3)]
  by simp

theorem validateMigrationData_runs_every_layer_witness:
  "validateMigrationData sampleValidationEngine \<lparr>records = sampleRows\<rparr> sampleSchema
     = Inr \<lparr>isValid = False,
          errors = [schemaIssue (''A2'', - 5), businessIssue (''A2'', - 5)],
          warnings = [\<lparr>severity = Warning, message = ''Duplicate record found: A2'',
                       issue_record = (''A2'', - 5)\<rparr>],
          statistics = 5\<rparr>"
  using validateMigrationData_runs_every_layer [OF sample_layers]
  by simp

theorem schema_failure_short_circuit_counterexample:
  "validateSchema sampleValidationEngine \<lparr>records = sampleRows\<rparr> sampleSchema
     = Inr \<lparr>lr_errors = [schemaIssue (''A2'', - 5)], lr_warnings = []\<rparr>
   \<and> validateMigrationData sampleValidationEngine \<lparr>records = sampleRows\<rparr> sampleSchema
     = Inr \<lparr>isValid = False,
          errors = [schemaIssue (''A2'', - 5), businessIssue (''A2'', - 5)],
          warnings = [\<lparr>severity = Warning, message = ''Duplicate record found: A2'',
                       issue_record = (''A2'', - 5)\<rparr>],
          statistics = 5\<rparr>"
  using sample_layers(1) sample_validation by simp

subsection \<open>The importers\<close>







lemma migrateBOQData_store:
  "snd (migrateBOQData m projectId db) =
     (case extractBOQFromRIBCandy m projectId of
        Inl e \<Rightarrow> db
      | Inr src \<Rightarrow>
     (case transformBOQStructure m src of
        Inl e \<Rightarrow> db
      | Inr boq \<Rightarrow>
     (case validateBOQData m boq of
        Inl e \<Rightarrow> db
      | Inr v \<Rightarrow> if isValid v then snd (importBOQ m boq db) else db)))"
  by (auto simp: migrateBOQData_def migrateBOQData_try_def split: sum.splits prod.splits)

lemma migrateExcelWorkbook_store:
  "snd (migrateExcelWorkbook xe filePath templateType db) =
     (case loadExcelFile xe filePath of
        Inl e \<Rightarrow> db
      | Inr wb \<Rightarrow>
     (case getTemplate xe templateType of
        Inl e \<Rightarrow> db
      | Inr t \<Rightarrow>
     (case extractDataFromExcel xe wb (detectDataStructure xe wb t) of
        Inl e \<Rightarrow> db
      | Inr d \<Rightarrow>
     (case validateExtractedData xe d t of
        Inl e \<Rightarrow> db
      | Inr v \<Rightarrow> if isValid v then snd (importData xe d templateType db) else db))))"
  by (auto simp: migrateExcelWorkbook_def Let_def split: sum.splits prod.splits)



lemma sample_boq_invalid_steps:
  "extractBOQFromRIBCandy sampleMigrator ''P1'' = Inr sampleRows"
  "transformBOQStructure sampleMigrator sampleRows = Inr \<lparr>records = sampleRows\<rparr>"
  "validateBOQData sampleMigrator \<lparr>records = sampleRows\<rparr>
     = Inr \<lparr>isValid = False,
            errors = [schemaIssue (''A2'', - 5), businessIssue (''A2'', - 5)],
            warnings = [\<lparr>severity = Warning, message = ''Duplicate record found: A2'',
                         issue_record = (''A2'', - 5)\<rparr>],
            statistics = 5\<rparr>"
  by (simp_all add: sampleMigrator_def sample_validation)

lemma sample_boq_valid_steps:
  "extractBOQFromRIBCandy sampleMigrator ''P2'' = Inr validRows"
  "transformBOQStructure sampleMigrator validRows = Inr \<lparr>records = validRows\<rparr>"
  "validateBOQData sampleMigrator \<lparr>records = validRows\<rparr>
     = Inr \<lparr>isValid = True, errors = [],
            warnings = [\<lparr>severity = Warning, message = ''Duplicate record found: B2'',
                         issue_record = (''B2'', 1)\<rparr>],
            statistics = 5\<rparr>"
  by (simp_all add: sampleMigrator_def sample_valid_validation)



subsection \<open>Quantities that are not positive\<close>

lemma quantity_issue:
  "quantity item \<le> 0 \<Longrightarrow>
   \<lparr>zi_path = ''quantity'', zi_message = Some ''Quantity must be positive''\<rparr>
     \<in> set (createCostItemSchema_issues isCuid item)"
  by (simp add: createCostItemSchema_issues_def zod_positive_def)

lemma quantity_accepted:
  "createCostItemSchema isCuid item = Inr item' \<Longrightarrow> item' = item \<and> quantity item > 0"
  by (auto simp: createCostItemSchema_def createCostItemSchema_issues_def zod_positive_def Let_def
      split: if_splits)

text \<open>
  Claim C7, as the code has it. \<^verbatim>\<open>createCostItemSchema\<close> rejects every cost item
  whose quantity is not strictly positive, with an issue on the field
  \<^verbatim>\<open>quantity\<close> whose message is \<^verbatim>\<open>Quantity must be positive\<close>, and accepts only
  items with a positive quantity. The importers do not drop single records:
  the destination store that \<^verbatim>\<open>migrateExcelWorkbook\<close> and \<^verbatim>\<open>migrateBOQData\<close> leave
  behind is the one they started with when a step before the import throws or
  the validation result is not valid, and otherwise the one that the import
  call leaves when it is handed the whole extracted data set.
\<close>

theorem nonpositive_quantity_rejects_whole_import:
  "(quantity item \<le> 0 \<longrightarrow>
      (\<exists>issues. createCostItemSchema isCuid item = Inl issues
         \<and> \<lparr>zi_path = ''quantity'', zi_message = Some ''Quantity must be positive''\<rparr> \<in> set issues))
   \<and> (\<forall>item'. createCostItemSchema isCuid item = Inr item' \<longrightarrow> quantity item' > 0)
   \<and> snd (migrateExcelWorkbook xe filePath templateType db) =
       (case loadExcelFile xe filePath of
          Inl e \<Rightarrow> db
        | Inr wb \<Rightarrow>
       (case getTemplate xe templateType of
          Inl e \<Rightarrow> db
        | Inr t \<Rightarrow>
       (case extractDataFromExcel xe wb (detectDataStructure xe wb t) of
          Inl e \<Rightarrow> db
        | Inr d \<Rightarrow>
       (case validateExtractedData xe d t of
          Inl e \<Rightarrow> db
        | Inr v \<Rightarrow> if isValid v then snd (importData xe d templateType db) else db))))
   \<and> snd (migrateBOQData m projectId db') =
       (case extractBOQFromRIBCandy m projectId of
          Inl e \<Rightarrow> db'
        | Inr src \<Rightarrow>
       (case transformBOQStructure m src of
          Inl e \<Rightarrow> db'
        | Inr boq \<Rightarrow>
       (case validateBOQData m boq of
          Inl e \<Rightarrow> db'
        | Inr v \<Rightarrow> if isValid v then snd (importBOQ m boq db') else db')))"
  apply (intro conjI)
     apply (rule impI)
     apply (frule quantity_issue [of item isCuid])
     apply (auto simp: createCostItemSchema_def Let_def)[1]
    apply (auto dest: quantity_accepted)[1]
   apply (rule migrateExcelWorkbook_store)
  apply (rule migrateBOQData_store)
  done

lemma sample_excel_steps:
  "loadExcelFile (sampleExcelEngine sim) ''boq.xlsx'' = Inr \<lparr>worksheets = [sampleSheet sampleRows]\<rparr>"
  "loadExcelFile (sampleExcelEngine sim) ''valid.xlsx'' = Inr \<lparr>worksheets = [sampleSheet validRows]\<rparr>"
  "getTemplate (sampleExcelEngine sim) ''standard_boq'' = Inr boqTemplate"
  "extractDataFromExcel (sampleExcelEngine sim) \<lparr>worksheets = [sampleSheet rows]\<rparr> mapping
     = Inr \<lparr>records = rows\<rparr>"
  "validateExtractedData (sampleExcelEngine sim) data boqTemplate
     = validateMigrationData sampleValidationEngine data sampleSchema"
  "importData (sampleExcelEngine sim) data templateType db
     = (Inr \<lparr>ir_count = length (records data)\<rparr>, db @ records data)"
  by (simp_all add: sampleExcelEngine_def sampleSheet_def)

theorem nonpositive_quantity_rejects_whole_import_witness:
  "quantity sampleCostItem \<le> 0
   \<and> createCostItemSchema (\<lambda>s. True) sampleCostItem
       = Inl [\<lparr>zi_path = ''quantity'', zi_message = Some ''Quantity must be positive''\<rparr>]
   \<and> snd (migrateBOQData sampleMigrator ''P1'' [(''Z9'', 1)]) = [(''Z9'', 1)]
   \<and> snd (migrateBOQData sampleMigrator ''P2'' [(''Z9'', 1)])
       = [(''Z9'', 1), (''B1'', 4), (''B2'', 7), (''B2'', 1)]
   \<and> snd (migrateExcelWorkbook (sampleExcelEngine (constSimilarity 0)) ''boq.xlsx''
            ''standard_boq'' [(''Z9'', 1)]) = [(''Z9'', 1)]
   \<and> snd (migrateExcelWorkbook (sampleExcelEngine (constSimilarity 0)) ''valid.xlsx''
            ''standard_boq'' [(''Z9'', 1)])
       = [(''Z9'', 1), (''B1'', 4), (''B2'', 7), (''B2'', 1)]"
proof -
  note t = nonpositive_quantity_rejects_whole_import
  have a: "quantity sampleCostItem \<le> 0
   \<and> createCostItemSchema (\<lambda>s. True) sampleCostItem
       = Inl [\<lparr>zi_path = ''quantity'', zi_message = Some ''Quantity must be positive''\<rparr>]"
    using t [of sampleCostItem "\<lambda>s. True", THEN conjunct1]
    by (simp add: sampleCostItem_def createCostItemSchema_def createCostItemSchema_issues_def
        zod_min1_def zod_enum_def zod_positive_def zod_cuid_def)
  have b1: "snd (migrateBOQData sampleMigrator ''P1'' [(''Z9'', 1)]) = [(''Z9'', 1)]"
    using t [where m = sampleMigrator and projectId = "''P1''" and db' = "[(''Z9'', 1)]",
        THEN conjunct2, THEN conjunct2, THEN conjunct2]
    by (simp add: sample_boq_invalid_steps)
  have b2: "snd (migrateBOQData sampleMigrator ''P2'' [(''Z9'', 1)])
       = [(''Z9'', 1), (''B1'', 4), (''B2'', 7), (''B2'', 1)]"
    using t [where m = sampleMigrator and projectId = "''P2''" and db' = "[(''Z9'', 1)]",
        THEN conjunct2, THEN conjunct2, THEN conjunct2]
    by (simp add: sample_boq_valid_steps) (simp add: sampleMigrator_def validRows_def)
  have e1: "snd (migrateExcelWorkbook (sampleExcelEngine (constSimilarity 0)) ''boq.xlsx''
            ''standard_boq'' [(''Z9'', 1)]) = [(''Z9'', 1)]"
    using t [where xe = "sampleExcelEngine (constSimilarity 0)" and filePath = "''boq.xlsx''"
          and templateType = "''standard_boq''" and db = "[(''Z9'', 1)]",
        THEN conjunct2, THEN conjunct2, THEN conjunct1]
    by (simp add: sample_excel_steps sample_validation)
  have e2: "snd (migrateExcelWorkbook (sampleExcelEngine (constSimilarity 0)) ''valid.xlsx''
            ''standard_boq'' [(''Z9'', 1)])
       = [(''Z9'', 1), (''B1'', 4), (''B2'', 7), (''B2'', 1)]"
    using t [where xe = "sampleExcelEngine (constSimilarity 0)" and filePath = "''valid.xlsx''"
          and templateType = "''standard_boq''" and db = "[(''Z9'', 1)]",
        THEN conjunct2, THEN conjunct2, THEN conjunct1]
    by (simp add: sample_excel_steps sample_valid_validation) (simp add: validRows_def)
  from a b1 b2 e1 e2 show ?thesis by simp
qed

theorem two_of_three_imported_counterexample:
  "sampleRows = [(''A1'', 10), (''A2'', 3), (''A2'', - 5)]
   \<and> migrateBOQData sampleMigrator ''P1'' []
       = (Inr (MigrationFailure (Some ''BOQ validation failed'') []), [])"
proof -
  have "migrateBOQData sampleMigrator ''P1'' [] =
      (case generateMigrationLog sampleMigrator of
         Inl e \<Rightarrow> (Inl e, [])
       | Inr migrationLog \<Rightarrow>
           (Inr (MigrationFailure (Some ''BOQ validation failed'') migrationLog), []))"
    by (rule migrateBOQData_rejects_invalid [OF sample_boq_invalid_steps]) simp
  then show ?thesis
    by (simp add: sampleMigrator_def sampleRows_def)
qed

subsection \<open>Migration jobs\<close>


















subsection \<open>Reconciliation reports\<close>

lemma reconcileMigratedData_returns:
  assumes "extractSourceData eng sourceId = Inr sourceData"
    and "extractTargetData eng targetId = Inr targetData"
    and "performReconciliation eng sourceData targetData = Inr rc"
  shows "reconcileMigratedData eng sourceId targetId =
     Inr \<lparr>sourceRecordCount = recordCount sourceData,
          targetRecordCount = recordCount targetData,
          matchedRecords = length (matches rc),
          rr_unmatchedSource = length (unmatchedSource rc),
          rr_unmatchedTarget = length (unmatchedTarget rc),
          rr_discrepancies = discrepancies rc,
          financialTotals =
            \<lparr>ft_source = calculateFinancialTotals eng sourceData,
             ft_target = calculateFinancialTotals eng targetData,
             variance = calculateVariance eng sourceData targetData\<rparr>,
          recommendedActions = generateRecommendations eng rc\<rparr>"
  using assms by (simp add: reconcileMigratedData_def)

lemma reconcileMigratedData_counts_only:
  assumes "extractSourceData eng sourceId = Inr sourceData"
    and "extractTargetData eng targetId = Inr targetData"
    and "performReconciliation eng sourceData targetData = Inr rc"
    and "length (matches rc') = length (matches rc)"
    and "length (unmatchedSource rc') = length (unmatchedSource rc)"
    and "length (unmatchedTarget rc') = length (unmatchedTarget rc)"
    and "discrepancies rc' = discrepancies rc"
    and "generateRecommendations eng rc' = generateRecommendations eng rc"
  shows "reconcileMigratedData (eng\<lparr>performReconciliation := (\<lambda>s t. Inr rc')\<rparr>) sourceId targetId
     = reconcileMigratedData eng sourceId targetId"
  using assms by (simp add: reconcileMigratedData_def)

text \<open>
  Claim C3, as the code has it. A reconciliation run that returns produces a
  report with the record counts of source and target, the numbers of matched
  records, of unmatched source records and of unmatched target records, the
  discrepancies, the financial totals computed by one function from the source
  data and from the target data, a variance computed from both, and the
  recommended actions. Of the matched and unmatched records only the numbers
  enter: another reconciliation with the same numbers, discrepancies and
  recommendations gives the same report. There is no verdict and no tolerance.
\<close>

theorem reconcileMigratedData_report_contents:
  "(extractSourceData eng sourceId = Inr sourceData
      \<and> extractTargetData eng targetId = Inr targetData
      \<and> performReconciliation eng sourceData targetData = Inr rc
    \<longrightarrow> reconcileMigratedData eng sourceId targetId =
         Inr \<lparr>sourceRecordCount = recordCount sourceData,
              targetRecordCount = recordCount targetData,
              matchedRecords = length (matches rc),
              rr_unmatchedSource = length (unmatchedSource rc),
              rr_unmatchedTarget = length (unmatchedTarget rc),
              rr_discrepancies = discrepancies rc,
              financialTotals =
                \<lparr>ft_source = calculateFinancialTotals eng sourceData,
                 ft_target = calculateFinancialTotals eng targetData,
                 variance = calculateVariance eng sourceData targetData\<rparr>,
              recommendedActions = generateRecommendations eng rc\<rparr>
       \<and> (\<forall>rc'. length (matches rc') = length (matches rc)
              \<and> length (unmatchedSource rc') = length (unmatchedSource rc)
              \<and> length (unmatchedTarget rc') = length (unmatchedTarget rc)
              \<and> discrepancies rc' = discrepancies rc
              \<and> generateRecommendations eng rc' = generateRecommendations eng rc
            \<longrightarrow> reconcileMigratedData (eng\<lparr>performReconciliation := (\<lambda>s t. Inr rc')\<rparr>)
                   sourceId targetId
                 = reconcileMigratedData eng sourceId targetId))"
  apply (intro impI conjI allI; elim conjE)
   apply (rule reconcileMigratedData_returns; assumption)
  apply (rule reconcileMigratedData_counts_only; assumption)
  done

lemma sample_reconciliations:
  "reconcileMigratedData sampleReconciler ''src'' ''t1'' = Inr sampleReport"
  "reconcileMigratedData sampleReconciler ''src'' ''t2'' = Inr sampleReport"
  "performReconciliation sampleReconciler (sampleData [(''a'', 10), (''b'', 10)])
       (sampleData [(''a'', 10), (''c'', 10)])
     = Inr \<lparr>matches = [(''a'', 10)], unmatchedSource = [(''b'', 10)],
            unmatchedTarget = [(''c'', 10)], discrepancies = ()\<rparr>"
  "performReconciliation sampleReconciler (sampleData [(''a'', 10), (''b'', 10)])
       (sampleData [(''b'', 10), (''d'', 10)])
     = Inr \<lparr>matches = [(''b'', 10)], unmatchedSource = [(''a'', 10)],
            unmatchedTarget = [(''d'', 10)], discrepancies = ()\<rparr>"
  by (simp_all add: reconcileMigratedData_def sampleReconciler_def sampleData_def sampleReport_def)

theorem reconcileMigratedData_report_contents_witness:
  "reconcileMigratedData sampleReconciler ''src'' ''t1'' = Inr sampleReport"
proof -
  have h: "extractSourceData sampleReconciler ''src'' = Inr (sampleData [(''a'', 10), (''b'', 10)])
      \<and> extractTargetData sampleReconciler ''t1'' = Inr (sampleData [(''a'', 10), (''c'', 10)])
      \<and> performReconciliation sampleReconciler (sampleData [(''a'', 10), (''b'', 10)])
           (sampleData [(''a'', 10), (''c'', 10)])
         = Inr \<lparr>matches = [(''a'', 10)], unmatchedSource = [(''b'', 10)],
            unmatchedTarget = [(''c'', 10)], discrepancies = ()\<rparr>"
    using sample_reconciliations(3) by (simp add: sampleReconciler_def)
  from reconcileMigratedData_report_contents [rule_format, OF h, THEN conjunct1]
  show ?thesis
    by (simp add: sampleReconciler_def sampleData_def sampleReport_def)
qed

theorem report_holds_record_sets_counterexample:
  "reconcileMigratedData sampleReconciler ''src'' ''t1'' = Inr sampleReport
   \<and> reconcileMigratedData sampleReconciler ''src'' ''t2'' = Inr sampleReport
   \<and> performReconciliation sampleReconciler (sampleData [(''a'', 10), (''b'', 10)])
       (sampleData [(''a'', 10), (''c'', 10)])
     = Inr \<lparr>matches = [(''a'', 10)], unmatchedSource = [(''b'', 10)],
            unmatchedTarget = [(''c'', 10)], discrepancies = ()\<rparr>
   \<and> performReconciliation sampleReconciler (sampleData [(''a'', 10), (''b'', 10)])
       (sampleData [(''b'', 10), (''d'', 10)])
     = Inr \<lparr>matches = [(''b'', 10)], unmatchedSource = [(''a'', 10)],
            unmatchedTarget = [(''d'', 10)], discrepancies = ()\<rparr>"
  using sample_reconciliations by simp

subsection \<open>Phases of a job\<close>

lemma terminal_no_transition: "terminal s \<Longrightarrow> \<not> transition s t"
  by (cases s) (simp_all add: transition_def)

lemma transition_cases:
  "transition s t \<Longrightarrow> next_phase s = Some t \<or> t = Failed \<or> t = Canceled"
  by (auto simp: transition_def)

lemma drop_rank: "next_phase s = Some t \<Longrightarrow> drop (rank s) phase_sequence = s # drop (rank t) phase_sequence"
  by (cases s) (auto simp: phase_sequence_def)

lemma history_to_completed:
  "job_history (s # rest) \<Longrightarrow> last (s # rest) = Completed \<Longrightarrow>
   s # rest = drop (rank s) phase_sequence"
proof (induction rest arbitrary: s)
  case Nil
  then show ?case by (simp add: phase_sequence_def)
next
  case (Cons t rest)
  from Cons.prems have tr: "transition s t" and h: "job_history (t # rest)"
    and l: "last (t # rest) = Completed" by simp_all
  have "\<not> terminal t \<or> rest = []"
    using h terminal_no_transition [of t] by (cases rest) auto
  with l have nf: "t \<noteq> Failed" "t \<noteq> Canceled" by auto
  with tr have n: "next_phase s = Some t" using transition_cases by blast
  show ?case
    using Cons.IH [OF h l] drop_rank [OF n] by simp
qed

lemma history_predecessor:
  "job_history run \<Longrightarrow> Suc i < length run \<Longrightarrow> \<not> terminal (run ! Suc i) \<Longrightarrow>
   next_phase (run ! i) = Some (run ! Suc i)"
proof (induction run arbitrary: i rule: job_history.induct)
  case 1
  then show ?case by simp
next
  case (2 s)
  then show ?case by simp
next
  case (3 s t rest)
  show ?case
  proof (cases i)
    case 0
    with 3 show ?thesis by (cases t) (auto simp: transition_def)
  next
    case (Suc j)
    with 3 show ?thesis by simp
  qed
qed

text \<open>
  Claim C8. The six phases are those that \<^verbatim>\<open>createProgressTracker\<close> lists, in its
  order, and \<open>Completed\<close> follows the last. A transition leads to the next phase,
  to \<open>Failed\<close> or to \<open>Canceled\<close>; both are reachable from every state that is not
  terminal, and a terminal state has no successor. So a history from
  \<open>Discovery\<close> that ends in \<open>Completed\<close> is exactly the phase sequence, and in any
  history a phase is entered only from its predecessor.
\<close>

theorem phase_order_fixed:
  "map phase_name (butlast phase_sequence) = phases
   \<and> (\<forall>s t. transition s t \<longrightarrow> next_phase s = Some t \<or> t = Failed \<or> t = Canceled)
   \<and> (\<forall>s. \<not> terminal s \<longrightarrow> transition s Failed \<and> transition s Canceled)
   \<and> (\<forall>s t. terminal s \<longrightarrow> \<not> transition s t)
   \<and> (\<forall>rest. job_history (Discovery # rest) \<and> last (Discovery # rest) = Completed
         \<longrightarrow> Discovery # rest = phase_sequence)
   \<and> (\<forall>run i. job_history run \<and> Suc i < length run \<and> \<not> terminal (run ! Suc i)
         \<longrightarrow> next_phase (run ! i) = Some (run ! Suc i))"
proof (intro conjI allI impI)
  show "map phase_name (butlast phase_sequence) = phases"
    by (simp add: phase_sequence_def phases_def)
next
  fix s t assume "transition s t"
  then show "next_phase s = Some t \<or> t = Failed \<or> t = Canceled" by (rule transition_cases)
next
  fix s assume "\<not> terminal s"
  then show "transition s Failed" by (simp add: transition_def)
next
  fix s assume "\<not> terminal s"
  then show "transition s Canceled" by (simp add: transition_def)
next
  fix s t assume "terminal s"
  then show "\<not> transition s t" by (rule terminal_no_transition)
next
  fix rest assume "job_history (Discovery # rest) \<and> last (Discovery # rest) = Completed"
  then show "Discovery # rest = phase_sequence"
    using history_to_completed [of Discovery rest] by simp
next
  fix run i assume "job_history run \<and> Suc i < length run \<and> \<not> terminal (run ! Suc i)"
  then show "next_phase (run ! i) = Some (run ! Suc i)"
    using history_predecessor by blast
qed

theorem phase_order_fixed_witness:
  "job_history phase_sequence \<and> last phase_sequence = Completed
   \<and> job_history [Discovery, Extraction, Failed]
   \<and> transition Import Canceled \<and> \<not> transition Completed Failed
   \<and> next_phase (phase_sequence ! 3) = Some (phase_sequence ! 4)"
proof -
  have h: "job_history phase_sequence" "last phase_sequence = Completed"
    "\<not> terminal (phase_sequence ! Suc 3)" "Suc 3 < length phase_sequence"
    by (simp_all add: phase_sequence_def transition_def)
  note t = phase_order_fixed
  have p: "next_phase (phase_sequence ! 3) = Some (phase_sequence ! Suc 3)"
    using t [THEN conjunct2, THEN conjunct2, THEN conjunct2, THEN conjunct2, THEN conjunct2,
        rule_format, of phase_sequence 3] h by simp
  have c: "transition Import Canceled"
    using t [THEN conjunct2, THEN conjunct2, THEN conjunct1, rule_format, of Import] by simp
  have f: "\<not> transition Completed Failed"
    using t [THEN conjunct2, THEN conjunct2, THEN conjunct2, THEN conjunct1, rule_format,
        of Completed Failed] by simp
  show ?thesis using h p c f by (simp add: transition_def)
qed

subsection \<open>Mapping confidence\<close>





















end
